theory Spec2Isabelle
  imports Complex_Main "HOL-Library.Word" "HOL-Library.Signed_Division"
begin

unbundle bit_operations_syntax

section \<open>The terrain component of Source/Urho3D/Graphics/Terrain.cpp\<close>

text \<open>
  A shallow embedding of \<^verbatim>\<open>Terrain\<close>: the height field, the patch layout, the shared index
  data with its draw ranges, full and partial regeneration, the LOD errors and the
  selection of a stitched draw range.

  Conventions of the embedding.
  \<^item> \<^verbatim>\<open>float\<close> is modelled by \<^typ>\<open>real\<close>: arithmetic on heights is exact, rounding of
    single precision is not modelled.
  \<^item> \<^verbatim>\<open>unsigned\<close> is \<^typ>\<open>32 word\<close> where the code shifts, masks or subtracts
    (\<^verbatim>\<open>numLodLevels_ - 1\<close>, \<^verbatim>\<open>lodLevel << 4\<close>, \<^verbatim>\<open>1u << i\<close>); \<^verbatim>\<open>int\<close> coordinates and
    sizes are \<^typ>\<open>int\<close>; \<^verbatim>\<open>/\<close> and \<^verbatim>\<open>%\<close> on \<^verbatim>\<open>int\<close> truncate towards zero
    (\<open>sdiv\<close>, \<open>smod\<close>).
  \<^item> Pointers that may be null are options. A member function that mutates the
    terrain takes the terrain and returns the new one.
  \<^item> Material, masks, distances and the other drawable parameters that the terrain only
    forwards to its patches are left out, as are the node identifiers of the neighbours.
\<close>

subsection \<open>Helpers of Math/MathDefs.h, Math/Vector3.h and Math/BoundingBox.h\<close>

text \<open>
  \<^verbatim>\<open>Terrain.cpp\<close> calls these helpers and includes their headers; their bodies are in
  the headers. They are written here by what the specification says of them and by
  their usual meaning in the engine: \<^verbatim>\<open>Clamp\<close> tests the lower bound first, \<^verbatim>\<open>Fract\<close> is
  \<^verbatim>\<open>value - floor(value)\<close>, \<^verbatim>\<open>RoundToInt\<close> is \<^verbatim>\<open>(int)round(x)\<close> (halves away from
  zero), \<^verbatim>\<open>IsPowerOfTwo\<close> is \<^verbatim>\<open>!(value & (value - 1)) && value\<close>, and a conversion from
  \<^verbatim>\<open>float\<close> to an integer type truncates.
\<close>

datatype Vector3 = Vector3 (vx: real) (vy: real) (vz: real)

datatype Vector2 = Vector2 (ux: real) (uy: real)

datatype IntVector2 = IntVector2 (ix: int) (iy: int)

record IntRect =
  r_left :: int
  r_top :: int
  r_right :: int
  r_bottom :: int

definition Vector3_ZERO :: Vector3 where
  "Vector3_ZERO = Vector3 0 0 0"

definition Vector3_UP :: Vector3 where
  "Vector3_UP = Vector3 0 1 0"

definition Vector3_RIGHT :: Vector3 where
  "Vector3_RIGHT = Vector3 1 0 0"

definition Vector2_ZERO :: Vector2 where
  "Vector2_ZERO = Vector2 0 0"

definition IntVector2_ZERO :: IntVector2 where
  "IntVector2_ZERO = IntVector2 0 0"

definition vadd :: "Vector3 \<Rightarrow> Vector3 \<Rightarrow> Vector3" where
  "vadd a b = Vector3 (vx a + vx b) (vy a + vy b) (vz a + vz b)"

definition vsub :: "Vector3 \<Rightarrow> Vector3 \<Rightarrow> Vector3" where
  "vsub a b = Vector3 (vx a - vx b) (vy a - vy b) (vz a - vz b)"

definition vscale :: "Vector3 \<Rightarrow> real \<Rightarrow> Vector3" where
  "vscale a k = Vector3 (vx a * k) (vy a * k) (vz a * k)"

definition DotProduct :: "Vector3 \<Rightarrow> Vector3 \<Rightarrow> real" where
  "DotProduct a b = vx a * vx b + vy a * vy b + vz a * vz b"

definition M_EPSILON :: real where
  "M_EPSILON = 1 / 1000000"

definition Equals :: "real \<Rightarrow> real \<Rightarrow> bool" where
  \<comment> \<open>Modelled from the spec: \<^verbatim>\<open>Equals\<close> of Math/MathDefs.h, equality up to \<^verbatim>\<open>M_EPSILON\<close>,
     as \<^verbatim>\<open>Normalized\<close> uses it\<close>
  "Equals lhs rhs = (lhs + M_EPSILON \<ge> rhs \<and> lhs - M_EPSILON \<le> rhs)"

definition Normalized :: "Vector3 \<Rightarrow> Vector3" where
  \<comment> \<open>Modelled from the spec: \<^verbatim>\<open>Vector3::Normalized\<close> of Math/Vector3.h, "the normalized
     sum"; a vector of length 1 or 0 is returned as it is\<close>
  "Normalized v =
     (let lenSquared = DotProduct v v
      in if \<not> Equals lenSquared 1 \<and> lenSquared > 0
         then vscale v (1 / sqrt lenSquared)
         else v)"

definition Clamp :: "'a::linorder \<Rightarrow> 'a \<Rightarrow> 'a \<Rightarrow> 'a" where
  \<comment> \<open>Modelled from the spec: \<^verbatim>\<open>Clamp\<close> of Math/MathDefs.h, "clamp (x,z) to [0,dim-1]"\<close>
  "Clamp v lo hi = (if v < lo then lo else if v > hi then hi else v)"

definition Fract :: "real \<Rightarrow> real" where
  \<comment> \<open>Modelled from the spec: \<^verbatim>\<open>Fract\<close> of Math/MathDefs.h, the fractional coordinate
     within the unit cell\<close>
  "Fract v = v - of_int \<lfloor>v\<rfloor>"

definition RoundToInt :: "real \<Rightarrow> int" where
  \<comment> \<open>Modelled from the spec: \<^verbatim>\<open>RoundToInt\<close> of Math/MathDefs.h, rounding to the nearest
     sample ("within rounding tolerance 0.5 sample")\<close>
  "RoundToInt v = (if v \<ge> 0 then \<lfloor>v + 1 / 2\<rfloor> else \<lceil>v - 1 / 2\<rceil>)"

definition IsPowerOfTwo :: "32 word \<Rightarrow> bool" where
  \<comment> \<open>Modelled from the spec: \<^verbatim>\<open>IsPowerOfTwo\<close> of Math/MathDefs.h, "is a power of two"\<close>
  "IsPowerOfTwo v = (v AND (v - 1) = 0 \<and> v \<noteq> 0)"

definition FloatToUnsigned :: "real \<Rightarrow> 32 word" where
  \<comment> \<open>\<^verbatim>\<open>(unsigned)xPos\<close>: the fraction is dropped; the result is taken modulo \<open>2 ^ 32\<close>.\<close>
  "FloatToUnsigned v = word_of_int (if v \<ge> 0 then \<lfloor>v\<rfloor> else \<lceil>v\<rceil>)"

definition Shl1 :: "nat \<Rightarrow> 32 word" where
  \<comment> \<open>\<^verbatim>\<open>1u << i\<close>\<close>
  "Shl1 i = push_bit i 1"

type_synonym BoundingBox = "(Vector3 \<times> Vector3) option"

definition BoxMerge :: "BoundingBox \<Rightarrow> Vector3 \<Rightarrow> BoundingBox" where
  \<comment> \<open>Modelled from the spec: \<^verbatim>\<open>BoundingBox::Merge(point)\<close> of Math/BoundingBox.h,
     "accumulates a bounding box over positions"; \<open>None\<close> is the undefined box a fresh
     one starts as\<close>
  "BoxMerge b p =
     (case b of
        None \<Rightarrow> Some (p, p)
      | Some (lo, hi) \<Rightarrow>
          Some (Vector3 (min (vx lo) (vx p)) (min (vy lo) (vy p)) (min (vz lo) (vz p)),
                Vector3 (max (vx hi) (vx p)) (max (vy hi) (vy p)) (max (vz hi) (vz p))))"

subsection \<open>Constants\<close>

definition DEFAULT_SPACING :: Vector3 where
  "DEFAULT_SPACING = Vector3 1 (1 / 4) 1"

definition MIN_LOD_LEVELS :: "32 word" where
  "MIN_LOD_LEVELS = 1"

definition MAX_LOD_LEVELS :: "32 word" where
  "MAX_LOD_LEVELS = 4"

definition DEFAULT_PATCH_SIZE :: int where
  "DEFAULT_PATCH_SIZE = 32"

definition MIN_PATCH_SIZE :: int where
  "MIN_PATCH_SIZE = 4"

definition MAX_PATCH_SIZE :: int where
  "MAX_PATCH_SIZE = 128"

definition STITCH_NORTH :: "32 word" where
  "STITCH_NORTH = 1"

definition STITCH_SOUTH :: "32 word" where
  "STITCH_SOUTH = 2"

definition STITCH_WEST :: "32 word" where
  "STITCH_WEST = 4"

definition STITCH_EAST :: "32 word" where
  "STITCH_EAST = 8"

definition M_MAX_UNSIGNED :: "32 word" where
  "M_MAX_UNSIGNED = - 1"

subsection \<open>Data model\<close>

text \<open>
  The height image: its size, the number of 8-bit components per pixel, whether it is
  block-compressed, and its bytes.
\<close>

record Image =
  img_width :: int
  img_height :: int
  img_components :: nat
  img_compressed :: bool
  img_data :: "8 word list"

text \<open>
  A patch is referred to by the terrain that owns it (this one or one of the four
  neighbour tiles) and its index in that terrain's \<^verbatim>\<open>patches_\<close>.
\<close>

datatype TerrainRef = ThisTerrain | NorthTerrain | SouthTerrain | WestTerrain | EastTerrain

datatype PatchRef = PatchRef (pr_owner: TerrainRef) (pr_index: nat)

record Vertex =
  v_position :: Vector3
  v_normal :: Vector3
  v_texCoord :: Vector2
  v_texCoord2 :: "Vector2 option"
  v_tangent :: Vector3
  v_tangentW :: real

record TerrainPatch =
  coordinates :: IntVector2
  vertexData :: "Vertex list"
  cpuVertexData :: "Vector3 list"
  occlusionCpuVertexData :: "Vector3 list"
  boundingBox :: BoundingBox
  lodErrors :: "real list"
  lodLevel :: "32 word"
  northPatch :: "PatchRef option"
  southPatch :: "PatchRef option"
  westPatch :: "PatchRef option"
  eastPatch :: "PatchRef option"
  geometryDrawRange :: "nat \<times> nat"
  maxLodDrawRange :: "nat \<times> nat"
  occlusionDrawRange :: "nat \<times> nat"

text \<open>
  The scene node: its world transform and the inverse (as maps on points), world scale,
  position and rotation, and its children that carry a patch, keyed by the coordinates in
  their name \<^verbatim>\<open>Patch_x_z\<close>.
\<close>

record Node =
  worldTransform :: "Vector3 \<Rightarrow> Vector3"
  worldTransformInverse :: "Vector3 \<Rightarrow> Vector3"
  worldScale :: Vector3
  worldPosition :: Vector3
  worldRotation :: "Vector3 \<Rightarrow> Vector3"
  children :: "int \<times> int \<Rightarrow> TerrainPatch option"

text \<open>What this terrain reads of a neighbour tile: its patch grid and the length of its \<^verbatim>\<open>patches_\<close>.\<close>

record NeighborTerrain =
  nb_numPatches :: IntVector2
  nb_patchCount :: nat

record Terrain =
  node :: "Node option"
  heightMap :: "Image option"
  heightData :: "real list option"
  sourceHeightData :: "real list option"
  spacing :: Vector3
  lastSpacing :: Vector3
  patchWorldOrigin :: Vector2
  patchWorldSize :: Vector2
  numVertices :: IntVector2
  lastNumVertices :: IntVector2
  numPatches :: IntVector2
  patchSize :: int
  lastPatchSize :: int
  numLodLevels :: "32 word"
  maxLodLevels :: "32 word"
  occlusionLodLevel :: "32 word"
  smoothing :: bool
  bakeLightmap :: bool
  recreateTerrain :: bool
  patches :: "(int \<times> int) list"
  indices :: "16 word list"
  drawRanges :: "(nat \<times> nat) list"
  north :: "NeighborTerrain option"
  south :: "NeighborTerrain option"
  west :: "NeighborTerrain option"
  east :: "NeighborTerrain option"
  reloadSubscription :: "Image option"
  terrainCreatedEvents :: nat

text \<open>The constructor.\<close>

definition Terrain_new :: Terrain where
  "Terrain_new =
     \<lparr> node = None, heightMap = None, heightData = None, sourceHeightData = None,
       spacing = DEFAULT_SPACING, lastSpacing = Vector3_ZERO,
       patchWorldOrigin = Vector2_ZERO, patchWorldSize = Vector2_ZERO,
       numVertices = IntVector2_ZERO, lastNumVertices = IntVector2_ZERO,
       numPatches = IntVector2_ZERO,
       patchSize = DEFAULT_PATCH_SIZE, lastPatchSize = 0,
       numLodLevels = 1, maxLodLevels = MAX_LOD_LEVELS, occlusionLodLevel = M_MAX_UNSIGNED,
       smoothing = False, bakeLightmap = False, recreateTerrain = False,
       patches = [], indices = [], drawRanges = [],
       north = None, south = None, west = None, east = None,
       reloadSubscription = None, terrainCreatedEvents = 0 \<rparr>"

subsection \<open>Height queries\<close>

definition HeightIndex :: "Terrain \<Rightarrow> int \<Rightarrow> int \<Rightarrow> int" where
  \<comment> \<open>the index \<^verbatim>\<open>z * numVertices_.x_ + x\<close> after both coordinates are clamped\<close>
  "HeightIndex t x z =
     (let x' = Clamp x 0 (ix (numVertices t) - 1);
          z' = Clamp z 0 (iy (numVertices t) - 1)
      in z' * ix (numVertices t) + x')"

definition GetRawHeight :: "Terrain \<Rightarrow> int \<Rightarrow> int \<Rightarrow> real" where
  "GetRawHeight t x z =
     (case heightData t of
        None \<Rightarrow> 0
      | Some d \<Rightarrow> d ! nat (HeightIndex t x z))"

definition GetSourceHeight :: "Terrain \<Rightarrow> int \<Rightarrow> int \<Rightarrow> real" where
  "GetSourceHeight t x z =
     (case sourceHeightData t of
        None \<Rightarrow> 0
      | Some d \<Rightarrow> d ! nat (HeightIndex t x z))"

definition Barycentric :: "real \<Rightarrow> real \<Rightarrow> real \<Rightarrow> real \<Rightarrow> real \<Rightarrow> real" where
  \<comment> \<open>\<^verbatim>\<open>h1 * (1.0f - xFrac - zFrac) + h2 * xFrac + h3 * zFrac\<close>\<close>
  "Barycentric h1 h2 h3 xFrac zFrac = h1 * (1 - xFrac - zFrac) + h2 * xFrac + h3 * zFrac"

definition LowerTriangle :: "real \<Rightarrow> real \<Rightarrow> real \<Rightarrow> real \<Rightarrow> real \<Rightarrow> real" where
  \<comment> \<open>the \<^verbatim>\<open>else\<close> branch: corners \<open>(0,0)\<close>, \<open>(1,0)\<close>, \<open>(0,1)\<close>\<close>
  "LowerTriangle h00 h10 h01 xFrac zFrac = Barycentric h00 h10 h01 xFrac zFrac"

definition UpperTriangle :: "real \<Rightarrow> real \<Rightarrow> real \<Rightarrow> real \<Rightarrow> real \<Rightarrow> real" where
  \<comment> \<open>the \<^verbatim>\<open>xFrac + zFrac >= 1.0f\<close> branch: corners \<open>(1,1)\<close>, \<open>(0,1)\<close>, \<open>(1,0)\<close>, and
     both fractions replaced by one minus themselves\<close>
  "UpperTriangle h11 h01 h10 xFrac zFrac = Barycentric h11 h01 h10 (1 - xFrac) (1 - zFrac)"

definition GetHeightLocal :: "Terrain \<Rightarrow> real \<Rightarrow> real \<Rightarrow> real" where
  \<comment> \<open>the body of \<^verbatim>\<open>GetHeight\<close> from \<^verbatim>\<open>xPos\<close>, \<^verbatim>\<open>zPos\<close> to \<^verbatim>\<open>h\<close>\<close>
  "GetHeightLocal t xPos zPos =
     (let xFrac = Fract xPos;
          zFrac = Fract zPos;
          x0 = sint (FloatToUnsigned xPos);
          x1 = sint (FloatToUnsigned xPos + 1);
          z0 = sint (FloatToUnsigned zPos);
          z1 = sint (FloatToUnsigned zPos + 1)
      in if xFrac + zFrac \<ge> 1
         then UpperTriangle (GetRawHeight t x1 z1) (GetRawHeight t x0 z1) (GetRawHeight t x1 z0)
                xFrac zFrac
         else LowerTriangle (GetRawHeight t x0 z0) (GetRawHeight t x1 z0) (GetRawHeight t x0 z1)
                xFrac zFrac)"

definition GetHeight :: "Terrain \<Rightarrow> Vector3 \<Rightarrow> real" where
  "GetHeight t worldPos =
     (case node t of
        Some n \<Rightarrow>
          (let position = worldTransformInverse n worldPos;
               xPos = (vx position - ux (patchWorldOrigin t)) / vx (spacing t);
               zPos = (vz position - uy (patchWorldOrigin t)) / vz (spacing t);
               h = GetHeightLocal t xPos zPos
           in vy (worldScale n) * h + vy (worldPosition n))
      | None \<Rightarrow> 0)"

definition GetLodHeight :: "Terrain \<Rightarrow> int \<Rightarrow> int \<Rightarrow> nat \<Rightarrow> real" where
  \<comment> \<open>\<^verbatim>\<open>x % offset\<close> and \<^verbatim>\<open>x + offset\<close> are unsigned: \<^verbatim>\<open>x\<close> is converted first, and the sum
     is converted back to \<^verbatim>\<open>int\<close> for \<^verbatim>\<open>GetRawHeight\<close>\<close>
  "GetLodHeight t x z level =
     (let offset = Shl1 level;
          xu = (word_of_int x :: 32 word);
          zu = (word_of_int z :: 32 word);
          xFrac = real (unat (xu mod offset)) / real (unat offset);
          zFrac = real (unat (zu mod offset)) / real (unat offset)
      in if xFrac + zFrac \<ge> 1
         then Barycentric (GetRawHeight t (sint (xu + offset)) (sint (zu + offset)))
                (GetRawHeight t x (sint (zu + offset)))
                (GetRawHeight t (sint (xu + offset)) z)
                (1 - xFrac) (1 - zFrac)
         else Barycentric (GetRawHeight t x z)
                (GetRawHeight t (sint (xu + offset)) z)
                (GetRawHeight t x (sint (zu + offset)))
                xFrac zFrac)"

definition GetRawNormal :: "Terrain \<Rightarrow> int \<Rightarrow> int \<Rightarrow> Vector3" where
  "GetRawNormal t x z =
     (let baseHeight = GetRawHeight t x z;
          nSlope = GetRawHeight t x (z - 1) - baseHeight;
          neSlope = GetRawHeight t (x + 1) (z - 1) - baseHeight;
          eSlope = GetRawHeight t (x + 1) z - baseHeight;
          seSlope = GetRawHeight t (x + 1) (z + 1) - baseHeight;
          sSlope = GetRawHeight t x (z + 1) - baseHeight;
          swSlope = GetRawHeight t (x - 1) (z + 1) - baseHeight;
          wSlope = GetRawHeight t (x - 1) z - baseHeight;
          nwSlope = GetRawHeight t (x - 1) (z - 1) - baseHeight;
          up = (1 / 2) * (vx (spacing t) + vz (spacing t))
      in Normalized
           (vadd (vadd (vadd (vadd (vadd (vadd (vadd
              (Vector3 0 up nSlope)
              (Vector3 (- neSlope) up neSlope))
              (Vector3 (- eSlope) up 0))
              (Vector3 (- seSlope) up (- seSlope)))
              (Vector3 0 up (- sSlope)))
              (Vector3 swSlope up (- swSlope)))
              (Vector3 wSlope up 0))
              (Vector3 nwSlope up nwSlope)))"

definition GetNormal :: "Terrain \<Rightarrow> Vector3 \<Rightarrow> Vector3" where
  "GetNormal t worldPos =
     (case node t of
        Some n \<Rightarrow>
          (let position = worldTransformInverse n worldPos;
               xPos = (vx position - ux (patchWorldOrigin t)) / vx (spacing t);
               zPos = (vz position - uy (patchWorldOrigin t)) / vz (spacing t);
               xFrac = Fract xPos;
               zFrac = Fract zPos;
               x0 = sint (FloatToUnsigned xPos);
               x1 = sint (FloatToUnsigned xPos + 1);
               z0 = sint (FloatToUnsigned zPos);
               z1 = sint (FloatToUnsigned zPos + 1);
               nrm =
                 (if xFrac + zFrac \<ge> 1
                  then vadd (vadd (vscale (GetRawNormal t x1 z1) (1 - (1 - xFrac) - (1 - zFrac)))
                                  (vscale (GetRawNormal t x0 z1) (1 - xFrac)))
                            (vscale (GetRawNormal t x1 z0) (1 - zFrac))
                  else vadd (vadd (vscale (GetRawNormal t x0 z0) (1 - xFrac - zFrac))
                                  (vscale (GetRawNormal t x1 z0) xFrac))
                            (vscale (GetRawNormal t x0 z1) zFrac))
           in worldRotation n (Normalized nrm))
      | None \<Rightarrow> Vector3_UP)"

definition WorldToHeightMap :: "Terrain \<Rightarrow> Vector3 \<Rightarrow> IntVector2" where
  "WorldToHeightMap t worldPos =
     (case node t of
        None \<Rightarrow> IntVector2_ZERO
      | Some n \<Rightarrow>
          (let position = worldTransformInverse n worldPos;
               xPos = RoundToInt ((vx position - ux (patchWorldOrigin t)) / vx (spacing t));
               zPos = RoundToInt ((vz position - uy (patchWorldOrigin t)) / vz (spacing t));
               xPos' = Clamp xPos 0 (ix (numVertices t) - 1);
               zPos' = Clamp zPos 0 (iy (numVertices t) - 1)
           in IntVector2 xPos' (iy (numVertices t) - 1 - zPos')))"

definition HeightMapToWorld :: "Terrain \<Rightarrow> IntVector2 \<Rightarrow> Vector3" where
  "HeightMapToWorld t pixelPosition =
     (case node t of
        None \<Rightarrow> Vector3_ZERO
      | Some n \<Rightarrow>
          (let pos = IntVector2 (ix pixelPosition) (iy (numVertices t) - 1 - iy pixelPosition);
               xPos = real_of_int (ix pos) * vx (spacing t) + ux (patchWorldOrigin t);
               zPos = real_of_int (iy pos) * vz (spacing t) + uy (patchWorldOrigin t);
               lPos = Vector3 xPos 0 zPos;
               wPos = worldTransform n lPos
           in Vector3 (vx wPos) (GetHeight t wPos) (vz wPos)))"

definition HeightMapToUV :: "Terrain \<Rightarrow> IntVector2 \<Rightarrow> Vector2" where
  "HeightMapToUV t pixelPosition =
     Vector2 (real_of_int (ix pixelPosition) / real_of_int (ix (numVertices t) - 1))
             (real_of_int (iy pixelPosition) / real_of_int (iy (numVertices t) - 1))"

subsection \<open>The shared index data\<close>

text \<open>
  A \<^verbatim>\<open>for\<close> loop from \<open>a\<close> while below \<open>b\<close> in steps of \<open>s\<close>. The steps of the source
  are \<^verbatim>\<open>1u << i\<close> with \<open>i\<close> below the number of LOD levels, hence positive; a
  step that is not positive, with which the source would not leave the loop, gives no
  iteration here.
\<close>

function StepRange :: "int \<Rightarrow> int \<Rightarrow> int \<Rightarrow> int list" where
  "StepRange a b s = (if a < b \<and> 0 < s then a # StepRange (a + s) b s else [])"
  by pat_completeness auto
termination
  by (relation "measure (\<lambda>(a, b, s). nat (b - a))") auto

declare StepRange.simps [simp del]

definition Idx :: "int \<Rightarrow> 16 word" where
  \<comment> \<open>the cast \<^verbatim>\<open>(unsigned short)\<close>\<close>
  "Idx k = word_of_int k"

definition MainGrid :: "int \<Rightarrow> int \<Rightarrow> int \<Rightarrow> int \<Rightarrow> int \<Rightarrow> int \<Rightarrow> 16 word list" where
  "MainGrid row skip xStart xEnd zStart zEnd =
     concat (map (\<lambda>z. concat (map (\<lambda>x.
       [Idx ((z + skip) * row + x),
        Idx (z * row + x + skip),
        Idx (z * row + x),
        Idx ((z + skip) * row + x),
        Idx ((z + skip) * row + x + skip),
        Idx (z * row + x + skip)])
       (StepRange xStart xEnd skip))) (StepRange zStart zEnd skip))"

definition NorthEdge :: "int \<Rightarrow> int \<Rightarrow> 32 word \<Rightarrow> 16 word list" where
  "NorthEdge ps skip j =
     (let row = ps + 1; z = ps - skip
      in concat (map (\<lambda>x.
           (if x > 0 \<or> j AND STITCH_WEST = 0
            then [Idx ((z + skip) * row + x), Idx (z * row + x + skip), Idx (z * row + x)]
            else []) @
           [Idx ((z + skip) * row + x),
            Idx ((z + skip) * row + x + 2 * skip),
            Idx (z * row + x + skip)] @
           (if x < ps - skip * 2 \<or> j AND STITCH_EAST = 0
            then [Idx ((z + skip) * row + x + 2 * skip),
                  Idx (z * row + x + 2 * skip),
                  Idx (z * row + x + skip)]
            else []))
         (StepRange 0 ps (skip * 2))))"

definition SouthEdge :: "int \<Rightarrow> int \<Rightarrow> 32 word \<Rightarrow> 16 word list" where
  "SouthEdge ps skip j =
     (let row = ps + 1; z = 0
      in concat (map (\<lambda>x.
           (if x > 0 \<or> j AND STITCH_WEST = 0
            then [Idx ((z + skip) * row + x), Idx ((z + skip) * row + x + skip), Idx (z * row + x)]
            else []) @
           [Idx (z * row + x),
            Idx ((z + skip) * row + x + skip),
            Idx (z * row + x + 2 * skip)] @
           (if x < ps - skip * 2 \<or> j AND STITCH_EAST = 0
            then [Idx ((z + skip) * row + x + skip),
                  Idx ((z + skip) * row + x + 2 * skip),
                  Idx (z * row + x + 2 * skip)]
            else []))
         (StepRange 0 ps (skip * 2))))"

definition WestEdge :: "int \<Rightarrow> int \<Rightarrow> 32 word \<Rightarrow> 16 word list" where
  "WestEdge ps skip j =
     (let row = ps + 1; x = 0
      in concat (map (\<lambda>z.
           (if z > 0 \<or> j AND STITCH_SOUTH = 0
            then [Idx (z * row + x), Idx ((z + skip) * row + x + skip), Idx (z * row + x + skip)]
            else []) @
           [Idx ((z + 2 * skip) * row + x),
            Idx ((z + skip) * row + x + skip),
            Idx (z * row + x)] @
           (if z < ps - skip * 2 \<or> j AND STITCH_NORTH = 0
            then [Idx ((z + 2 * skip) * row + x),
                  Idx ((z + 2 * skip) * row + x + skip),
                  Idx ((z + skip) * row + x + skip)]
            else []))
         (StepRange 0 ps (skip * 2))))"

definition EastEdge :: "int \<Rightarrow> int \<Rightarrow> 32 word \<Rightarrow> 16 word list" where
  "EastEdge ps skip j =
     (let row = ps + 1; x = ps - skip
      in concat (map (\<lambda>z.
           (if z > 0 \<or> j AND STITCH_SOUTH = 0
            then [Idx (z * row + x), Idx ((z + skip) * row + x), Idx (z * row + x + skip)]
            else []) @
           [Idx ((z + skip) * row + x),
            Idx ((z + 2 * skip) * row + x + skip),
            Idx (z * row + x + skip)] @
           (if z < ps - skip * 2 \<or> j AND STITCH_NORTH = 0
            then [Idx ((z + skip) * row + x),
                  Idx ((z + 2 * skip) * row + x),
                  Idx ((z + 2 * skip) * row + x + skip)]
            else []))
         (StepRange 0 ps (skip * 2))))"

definition LodIndices :: "int \<Rightarrow> int \<Rightarrow> 32 word \<Rightarrow> 16 word list" where
  \<comment> \<open>the indices of one LOD level (step \<open>skip\<close>) and one combination \<open>j\<close> of stitched edges\<close>
  "LodIndices ps skip j =
     (let zStart = (if j AND STITCH_SOUTH \<noteq> 0 then skip else 0);
          xStart = (if j AND STITCH_WEST \<noteq> 0 then skip else 0);
          zEnd = (if j AND STITCH_NORTH \<noteq> 0 then ps - skip else ps);
          xEnd = (if j AND STITCH_EAST \<noteq> 0 then ps - skip else ps)
      in MainGrid (ps + 1) skip xStart xEnd zStart zEnd @
         (if j AND STITCH_NORTH \<noteq> 0 then NorthEdge ps skip j else []) @
         (if j AND STITCH_SOUTH \<noteq> 0 then SouthEdge ps skip j else []) @
         (if j AND STITCH_WEST \<noteq> 0 then WestEdge ps skip j else []) @
         (if j AND STITCH_EAST \<noteq> 0 then EastEdge ps skip j else []))"

definition Combinations :: "32 word \<Rightarrow> nat \<Rightarrow> nat" where
  \<comment> \<open>\<^verbatim>\<open>(i < numLodLevels_ - 1) ? 16 : 1\<close>\<close>
  "Combinations n i = (if word_of_nat i < n - 1 then 16 else 1)"

definition LodCombos :: "32 word \<Rightarrow> (nat \<times> nat) list" where
  \<comment> \<open>the pairs \<open>(i, j)\<close> in the order the two nested loops visit them\<close>
  "LodCombos n = concat (map (\<lambda>i. map (\<lambda>j. (i, j)) [0..<Combinations n i]) [0..<unat n])"

definition AddDrawRange ::
  "int \<Rightarrow> nat \<times> nat \<Rightarrow> 16 word list \<times> (nat \<times> nat) list \<Rightarrow> 16 word list \<times> (nat \<times> nat) list" where
  "AddDrawRange ps ij acc =
     (let indexStart = length (fst acc);
          inds = fst acc @ LodIndices ps (sint (Shl1 (fst ij))) (word_of_nat (snd ij))
      in (inds, snd acc @ [(indexStart, length inds - indexStart)]))"

definition CreateIndexData :: "Terrain \<Rightarrow> Terrain" where
  "CreateIndexData t =
     (let r = fold (AddDrawRange (patchSize t)) (LodCombos (numLodLevels t)) ([], [])
      in t\<lparr>indices := fst r, drawRanges := snd r\<rparr>)"

subsection \<open>LOD errors\<close>

definition LodError :: "Terrain \<Rightarrow> IntVector2 \<Rightarrow> nat \<Rightarrow> real" where
  \<comment> \<open>the body of the loop over the LOD levels for a level \<open>i > 0\<close>\<close>
  "LodError t coords i =
     (let xStart = ix coords * patchSize t;
          zStart = iy coords * patchSize t;
          xEnd = xStart + patchSize t;
          zEnd = zStart + patchSize t;
          divisor = sint (Shl1 i);
          maxError =
            fold (\<lambda>z. fold (\<lambda>x m.
                if x smod divisor \<noteq> 0 \<or> z smod divisor \<noteq> 0
                then max \<bar>GetLodHeight t x z i - GetRawHeight t x z\<bar> m
                else m) [xStart..xEnd]) [zStart..zEnd] 0
      in max maxError ((1 / 4) * (vx (spacing t) + vz (spacing t)) * real (unat (Shl1 i))))"

definition CalculateLodErrors :: "Terrain \<Rightarrow> TerrainPatch \<Rightarrow> TerrainPatch" where
  "CalculateLodErrors t patch =
     patch\<lparr>lodErrors :=
       map (\<lambda>i. if i > 0 then LodError t (coordinates patch) i else 0)
         [0..<unat (numLodLevels t)]\<rparr>"

subsection \<open>Patch geometry\<close>

definition OcclusionLevel :: "Terrain \<Rightarrow> 32 word" where
  "OcclusionLevel t =
     (if occlusionLodLevel t > numLodLevels t - 1 then numLodLevels t - 1
      else occlusionLodLevel t)"

definition OcclusionHeight :: "Terrain \<Rightarrow> int \<Rightarrow> int \<Rightarrow> int \<Rightarrow> int \<Rightarrow> real \<Rightarrow> real" where
  \<comment> \<open>the minimum height around a vertex of the occlusion LOD; \<^verbatim>\<open>xPos - halfLodExpand\<close>
     and \<^verbatim>\<open>xPos + halfLodExpand\<close> are unsigned, and so are the comparisons of \<^verbatim>\<open>Max\<close> and
     \<^verbatim>\<open>Min\<close> on them\<close>
  "OcclusionHeight t x z xPos zPos h =
     (let lodExpand = Shl1 (unat (OcclusionLevel t)) - 1;
          halfLodExpand = Shl1 (unat (OcclusionLevel t)) div 2
      in if halfLodExpand > 0 \<and> (word_of_int x AND lodExpand) = 0
            \<and> (word_of_int z AND lodExpand) = 0
         then
           (let lx = word_of_int xPos - halfLodExpand;
                hx = word_of_int xPos + halfLodExpand;
                lz = word_of_int zPos - halfLodExpand;
                hz = word_of_int zPos + halfLodExpand;
                wx = (word_of_int (ix (numVertices t) - 1) :: 32 word);
                wz = (word_of_int (iy (numVertices t) - 1) :: 32 word);
                minX = sint (if lx > 0 then lx else 0);
                maxX = sint (if hx < wx then hx else wx);
                minZ = sint (if lz > 0 then lz else 0);
                maxZ = sint (if hz < wz then hz else wz)
            in fold (\<lambda>nZ. fold (\<lambda>nX m. min m (GetRawHeight t nX nZ)) [minX..maxX])
                 [minZ..maxZ] h)
         else h)"

definition PatchVertex :: "Terrain \<Rightarrow> IntVector2 \<Rightarrow> int \<Rightarrow> int \<Rightarrow> Vertex" where
  "PatchVertex t coords x z =
     (let xPos = ix coords * patchSize t + x;
          zPos = iy coords * patchSize t + z;
          normal = GetRawNormal t xPos zPos;
          texCoord = HeightMapToUV t (IntVector2 xPos (iy (numVertices t) - 1 - zPos))
      in \<lparr> v_position =
             Vector3 (real_of_int x * vx (spacing t)) (GetRawHeight t xPos zPos)
               (real_of_int z * vz (spacing t)),
           v_normal = normal,
           v_texCoord = texCoord,
           v_texCoord2 = (if bakeLightmap t then Some texCoord else None),
           v_tangent =
             Normalized (vsub Vector3_RIGHT (vscale normal (DotProduct normal Vector3_RIGHT))),
           v_tangentW = 1 \<rparr>)"

definition OcclusionVertex :: "Terrain \<Rightarrow> IntVector2 \<Rightarrow> int \<Rightarrow> int \<Rightarrow> Vector3" where
  "OcclusionVertex t coords x z =
     (let xPos = ix coords * patchSize t + x;
          zPos = iy coords * patchSize t + z;
          h = GetRawHeight t xPos zPos
      in Vector3 (real_of_int x * vx (spacing t)) (OcclusionHeight t x z xPos zPos h)
           (real_of_int z * vz (spacing t)))"

definition PatchGrid :: "int \<Rightarrow> (int \<times> int) list" where
  \<comment> \<open>the pairs \<open>(x, z)\<close> of the loops \<^verbatim>\<open>z <= patchSize_\<close>, \<^verbatim>\<open>x <= patchSize_\<close>, row by row\<close>
  "PatchGrid ps = concat (map (\<lambda>z. map (\<lambda>x. (x, z)) [0..ps]) [0..ps])"

definition CreatePatchGeometry :: "Terrain \<Rightarrow> TerrainPatch \<Rightarrow> TerrainPatch" where
  \<comment> \<open>mapping the vertex buffer is taken to succeed; \<^verbatim>\<open>ResetLod\<close> of TerrainPatch.cpp
     puts the patch back at level 0\<close>
  "CreatePatchGeometry t patch =
     (let coords = coordinates patch;
          verts = map (\<lambda>(x, z). PatchVertex t coords x z) (PatchGrid (patchSize t));
          positions = map v_position verts;
          occlusion = map (\<lambda>(x, z). OcclusionVertex t coords x z) (PatchGrid (patchSize t));
          box = fold (\<lambda>p b. BoxMerge b p) positions None;
          p1 = patch\<lparr>vertexData := verts, boundingBox := box\<rparr>;
          p2 = (if drawRanges t \<noteq> []
                then p1\<lparr>geometryDrawRange := drawRanges t ! 0,
                        maxLodDrawRange := drawRanges t ! 0,
                        occlusionDrawRange := drawRanges t ! unat (push_bit 4 (OcclusionLevel t)),
                        cpuVertexData := positions,
                        occlusionCpuVertexData := occlusion\<rparr>
                else p1)
      in p2\<lparr>lodLevel := 0\<rparr>)"

subsection \<open>Selecting the stitched draw range\<close>

type_synonym PatchHeap = "PatchRef \<Rightarrow> TerrainPatch option"

definition Deref :: "PatchHeap \<Rightarrow> PatchRef option \<Rightarrow> TerrainPatch option" where
  \<comment> \<open>a weak pointer: null when unset or when the patch is gone\<close>
  "Deref heap r = (case r of None \<Rightarrow> None | Some a \<Rightarrow> heap a)"

definition Coarser :: "TerrainPatch option \<Rightarrow> 32 word \<Rightarrow> bool" where
  \<comment> \<open>\<^verbatim>\<open>north && north->GetLodLevel() > lodLevel\<close>\<close>
  "Coarser nb level = (case nb of None \<Rightarrow> False | Some q \<Rightarrow> lodLevel q > level)"

definition DrawRangeIndex :: "Terrain \<Rightarrow> PatchHeap \<Rightarrow> TerrainPatch \<Rightarrow> 32 word" where
  "DrawRangeIndex t heap patch =
     (let level = lodLevel patch;
          i0 = push_bit 4 level
      in if level < numLodLevels t - 1
         then
           (let i1 = (if Coarser (Deref heap (northPatch patch)) level then i0 OR STITCH_NORTH else i0);
                i2 = (if Coarser (Deref heap (southPatch patch)) level then i1 OR STITCH_SOUTH else i1);
                i3 = (if Coarser (Deref heap (westPatch patch)) level then i2 OR STITCH_WEST else i2);
                i4 = (if Coarser (Deref heap (eastPatch patch)) level then i3 OR STITCH_EAST else i3)
            in i4)
         else i0)"

definition UpdatePatchLod :: "Terrain \<Rightarrow> PatchHeap \<Rightarrow> TerrainPatch \<Rightarrow> TerrainPatch" where
  "UpdatePatchLod t heap patch =
     (let drawRangeIndex = unat (DrawRangeIndex t heap patch)
      in if drawRangeIndex < length (drawRanges t)
         then patch\<lparr>geometryDrawRange := drawRanges t ! drawRangeIndex\<rparr>
         else patch)"

subsection \<open>Patches and their neighbours\<close>

definition GetPatchIndex :: "Terrain \<Rightarrow> nat \<Rightarrow> PatchRef option" where
  \<comment> \<open>\<^verbatim>\<open>GetPatch(unsigned index)\<close>\<close>
  "GetPatchIndex t index =
     (if index < length (patches t) then Some (PatchRef ThisTerrain index) else None)"

definition GetPatch :: "Terrain \<Rightarrow> int \<Rightarrow> int \<Rightarrow> PatchRef option" where
  "GetPatch t x z =
     (if x < 0 \<or> x \<ge> ix (numPatches t) \<or> z < 0 \<or> z \<ge> iy (numPatches t) then None
      else GetPatchIndex t (nat (z * ix (numPatches t) + x)))"

definition NeighborGetPatch :: "TerrainRef \<Rightarrow> NeighborTerrain \<Rightarrow> int \<Rightarrow> int \<Rightarrow> PatchRef option" where
  \<comment> \<open>\<^verbatim>\<open>GetPatch(x, z)\<close> called on a neighbour tile\<close>
  "NeighborGetPatch who nb x z =
     (if x < 0 \<or> x \<ge> ix (nb_numPatches nb) \<or> z < 0 \<or> z \<ge> iy (nb_numPatches nb) then None
      else (let index = nat (z * ix (nb_numPatches nb) + x)
            in if index < nb_patchCount nb then Some (PatchRef who index) else None))"

definition GetNeighborPatch :: "Terrain \<Rightarrow> int \<Rightarrow> int \<Rightarrow> PatchRef option" where
  "GetNeighborPatch t x z =
     (if z \<ge> iy (numPatches t) \<and> north t \<noteq> None
      then NeighborGetPatch NorthTerrain (the (north t)) x (z - iy (numPatches t))
      else if z < 0 \<and> south t \<noteq> None
      then NeighborGetPatch SouthTerrain (the (south t)) x
             (z + iy (nb_numPatches (the (south t))))
      else if x < 0 \<and> west t \<noteq> None
      then NeighborGetPatch WestTerrain (the (west t))
             (x + ix (nb_numPatches (the (west t)))) z
      else if x \<ge> ix (numPatches t) \<and> east t \<noteq> None
      then NeighborGetPatch EastTerrain (the (east t)) (x - ix (numPatches t)) z
      else GetPatch t x z)"

definition SetPatchNeighbors :: "Terrain \<Rightarrow> TerrainPatch \<Rightarrow> TerrainPatch" where
  "SetPatchNeighbors t patch =
     (let cx = ix (coordinates patch); cz = iy (coordinates patch)
      in patch\<lparr>northPatch := GetNeighborPatch t cx (cz + 1),
               southPatch := GetNeighborPatch t cx (cz - 1),
               westPatch := GetNeighborPatch t (cx - 1) cz,
               eastPatch := GetNeighborPatch t (cx + 1) cz\<rparr>)"

subsection \<open>Regeneration\<close>

definition GrowUpdateRegion :: "IntRect \<Rightarrow> int \<Rightarrow> int \<Rightarrow> IntRect" where
  "GrowUpdateRegion updateRegion x y =
     (if r_left updateRegion < 0
      then \<lparr>r_left = x, r_top = y, r_right = x, r_bottom = y\<rparr>
      else
        (let r1 = (if x < r_left updateRegion then updateRegion\<lparr>r_left := x\<rparr> else updateRegion);
             r2 = (if x > r_right r1 then r1\<lparr>r_right := x\<rparr> else r1);
             r3 = (if y < r_top r2 then r2\<lparr>r_top := y\<rparr> else r2);
             r4 = (if y > r_bottom r3 then r3\<lparr>r_bottom := y\<rparr> else r3)
         in r4))"

function NumLodLevelsLoop :: "32 word \<Rightarrow> 32 word \<Rightarrow> 32 word \<Rightarrow> 32 word" where
  \<comment> \<open>\<^verbatim>\<open>while (lodSize > MIN_PATCH_SIZE && numLodLevels_ < maxLodLevels_)\<close>\<close>
  "NumLodLevelsLoop lodSize n maxLod =
     (if lodSize > word_of_int MIN_PATCH_SIZE \<and> n < maxLod
      then NumLodLevelsLoop (drop_bit 1 lodSize) (n + 1) maxLod
      else n)"
  by pat_completeness auto
termination
proof (relation "measure (\<lambda>(lodSize, n, maxLod). unat maxLod - unat n)")
  show "wf (measure (\<lambda>(lodSize, n, maxLod). unat maxLod - unat n))"
    by simp
next
  fix lodSize n maxLod :: "32 word"
  assume "lodSize > word_of_int MIN_PATCH_SIZE \<and> n < maxLod"
  then have a: "unat n < unat maxLod"
    by (simp add: word_less_nat_alt)
  have "unat maxLod < 2 ^ 32"
    using unsigned_less [of maxLod, where 'a = nat] by simp
  with a have "Suc (unat n) < 2 ^ 32"
    by simp
  then have "unat (n + 1) = Suc (unat n)"
    by (simp add: unat_word_ariths)
  with a show "((drop_bit 1 lodSize, n + 1, maxLod), (lodSize, n, maxLod))
      \<in> measure (\<lambda>(lodSize, n, maxLod). unat maxLod - unat n)"
    by simp
qed

declare NumLodLevelsLoop.simps [simp del]

definition NewHeight :: "Vector3 \<Rightarrow> IntVector2 \<Rightarrow> Image \<Rightarrow> int \<Rightarrow> int \<Rightarrow> real" where
  \<comment> \<open>the height of sample \<open>(x, z)\<close> read from the image; the rows are flipped, and with
     more than one component the second one adds 1/256 steps\<close>
  "NewHeight sp nv img x z =
     (let src = img_data img;
          imgComps = int (img_components img);
          imgRow = img_width img * imgComps
      in if imgComps = 1
         then real (unat (src ! nat (imgRow * (iy nv - 1 - z) + x))) * vy sp
         else (real (unat (src ! nat (imgRow * (iy nv - 1 - z) + imgComps * x))) +
               real (unat (src ! nat (imgRow * (iy nv - 1 - z) + imgComps * x + 1))) / 256)
              * vy sp)"

definition SampleGrid :: "IntVector2 \<Rightarrow> (int \<times> int) list" where
  \<comment> \<open>the pairs \<open>(x, z)\<close> of the loops \<^verbatim>\<open>z < numVertices_.y_\<close>, \<^verbatim>\<open>x < numVertices_.x_\<close>\<close>
  "SampleGrid nv = concat (map (\<lambda>z. map (\<lambda>x. (x, z)) [0..ix nv - 1]) [0..iy nv - 1])"

definition CopySample ::
  "bool \<Rightarrow> (int \<Rightarrow> int \<Rightarrow> real) \<Rightarrow> int \<Rightarrow> int \<times> int \<Rightarrow> real list \<times> IntRect \<Rightarrow> real list \<times> IntRect" where
  \<comment> \<open>one step of the copy loop; \<^verbatim>\<open>dest\<close> advances by one per sample, so it stands at
     \<open>z * numVertices_.x_ + x\<close>\<close>
  "CopySample updateAll newHeight nvx xz acc =
     (let x = fst xz; z = snd xz;
          k = nat (z * nvx + x);
          h = newHeight x z
      in if updateAll then ((fst acc)[k := h], snd acc)
         else if fst acc ! k \<noteq> h then ((fst acc)[k := h], GrowUpdateRegion (snd acc) x z)
         else acc)"

definition CopyHeightData ::
  "bool \<Rightarrow> (int \<Rightarrow> int \<Rightarrow> real) \<Rightarrow> IntVector2 \<Rightarrow> real list \<Rightarrow> real list \<times> IntRect" where
  "CopyHeightData updateAll newHeight nv dest =
     fold (CopySample updateAll newHeight (ix nv)) (SampleGrid nv)
       (dest, \<lparr>r_left = - 1, r_top = - 1, r_right = - 1, r_bottom = - 1\<rparr>)"

definition ExpandRegion :: "32 word \<Rightarrow> IntRect \<Rightarrow> IntRect" where
  \<comment> \<open>the region grown by the coarsest LOD step, and by one more to the right and the bottom\<close>
  "ExpandRegion n updateRegion =
     (let lodExpand = sint (Shl1 (unat (n - 1)))
      in \<lparr>r_left = r_left updateRegion - lodExpand,
          r_top = r_top updateRegion - lodExpand,
          r_right = r_right updateRegion + lodExpand + 1,
          r_bottom = r_bottom updateRegion + lodExpand + 1\<rparr>)"

definition DirtyRange :: "int \<Rightarrow> IntVector2 \<Rightarrow> IntRect \<Rightarrow> (int \<times> int) list" where
  \<comment> \<open>the patch coordinates \<open>(x, y)\<close> the marking loops visit\<close>
  "DirtyRange ps np r =
     (let sX = max (r_left r sdiv ps) 0;
          eX = min (r_right r sdiv ps) (ix np - 1);
          sY = max (r_top r sdiv ps) 0;
          eY = min (r_bottom r sdiv ps) (iy np - 1)
      in concat (map (\<lambda>y. map (\<lambda>x. (x, y)) [sX..eX]) [sY..eY]))"

definition MarkDirty :: "int \<Rightarrow> IntVector2 \<Rightarrow> 32 word \<Rightarrow> IntRect \<Rightarrow> bool list \<Rightarrow> bool list" where
  "MarkDirty ps np n updateRegion dirtyPatches =
     fold (\<lambda>(x, y) d. d[nat (y * ix np + x) := True])
       (DirtyRange ps np (ExpandRegion n updateRegion)) dirtyPatches"

definition PatchKeys :: "IntVector2 \<Rightarrow> (int \<times> int) list" where
  \<comment> \<open>the pairs \<open>(x, z)\<close> of the loops \<^verbatim>\<open>z < numPatches_.y_\<close>, \<^verbatim>\<open>x < numPatches_.x_\<close>\<close>
  "PatchKeys np = concat (map (\<lambda>z. map (\<lambda>x. (x, z)) [0..ix np - 1]) [0..iy np - 1])"

definition NewPatch :: "int \<times> int \<Rightarrow> TerrainPatch" where
  \<comment> \<open>a patch component as \<^verbatim>\<open>CreateComponent\<close> and \<^verbatim>\<open>SetCoordinates\<close> leave it\<close>
  "NewPatch xz =
     \<lparr> coordinates = IntVector2 (fst xz) (snd xz), vertexData = [], cpuVertexData = [],
       occlusionCpuVertexData = [], boundingBox = None, lodErrors = [], lodLevel = 0,
       northPatch = None, southPatch = None, westPatch = None, eastPatch = None,
       geometryDrawRange = (0, 0), maxLodDrawRange = (0, 0), occlusionDrawRange = (0, 0) \<rparr>"

definition CreatePatches ::
  "(int \<times> int) list \<Rightarrow> (int \<times> int \<Rightarrow> TerrainPatch option) \<Rightarrow> (int \<times> int \<Rightarrow> TerrainPatch option)" where
  \<comment> \<open>a child node with its patch is created where there is none yet\<close>
  "CreatePatches keys ch =
     fold (\<lambda>k c. case c k of None \<Rightarrow> c(k \<mapsto> NewPatch k) | Some p \<Rightarrow> c) keys ch"

definition SmoothedHeight :: "Terrain \<Rightarrow> int \<Rightarrow> int \<Rightarrow> real" where
  "SmoothedHeight t x z =
     (GetSourceHeight t (x - 1) (z - 1) + GetSourceHeight t x (z - 1) * 2
        + GetSourceHeight t (x + 1) (z - 1)
      + GetSourceHeight t (x - 1) z * 2 + GetSourceHeight t x z * 4
        + GetSourceHeight t (x + 1) z * 2
      + GetSourceHeight t (x - 1) (z + 1) + GetSourceHeight t x (z + 1) * 2
        + GetSourceHeight t (x + 1) (z + 1)) / 16"

definition SmoothPatch :: "Terrain \<Rightarrow> IntVector2 \<Rightarrow> real list \<Rightarrow> real list" where
  "SmoothPatch t coords d =
     (let startX = ix coords * patchSize t;
          endX = startX + patchSize t;
          startZ = iy coords * patchSize t;
          endZ = startZ + patchSize t
      in fold (\<lambda>z. fold (\<lambda>x d'. d'[nat (z * ix (numVertices t) + x) := SmoothedHeight t x z])
                 [startX..endX]) [startZ..endZ] d)"

definition UpdateSmoothing ::
  "Terrain \<Rightarrow> bool list \<Rightarrow> (int \<times> int \<Rightarrow> TerrainPatch option) \<Rightarrow> Terrain" where
  "UpdateSmoothing t dirtyPatches ch =
     fold (\<lambda>i t'.
        if dirtyPatches ! i
        then (case ch (patches t' ! i) of
                Some patch \<Rightarrow>
                  t'\<lparr>heightData := map_option (SmoothPatch t' (coordinates patch)) (heightData t')\<rparr>
              | None \<Rightarrow> t')
        else t') [0..<length (patches t)] t"

definition BuildPatch :: "Terrain \<Rightarrow> bool \<Rightarrow> TerrainPatch \<Rightarrow> TerrainPatch" where
  \<comment> \<open>the body of the last loop over the patches\<close>
  "BuildPatch t dirty patch =
     SetPatchNeighbors t
       (if dirty then CalculateLodErrors t (CreatePatchGeometry t patch) else patch)"

definition BuildPatches ::
  "Terrain \<Rightarrow> bool list \<Rightarrow> (int \<times> int \<Rightarrow> TerrainPatch option) \<Rightarrow> (int \<times> int \<Rightarrow> TerrainPatch option)" where
  "BuildPatches t dirtyPatches ch =
     fold (\<lambda>i c. case c (patches t ! i) of
                   Some patch \<Rightarrow> c(patches t ! i \<mapsto> BuildPatch t (dirtyPatches ! i) patch)
                 | None \<Rightarrow> c)
       [0..<length (patches t)] ch"

definition SendTerrainCreated :: "nat \<Rightarrow> Terrain \<Rightarrow> Terrain" where
  \<comment> \<open>the event is sent only if there is new geometry, or the old one was cleared\<close>
  "SendTerrainCreated prevNumPatches t =
     (if patches t \<noteq> [] \<or> prevNumPatches \<noteq> 0
      then t\<lparr>terrainCreatedEvents := terrainCreatedEvents t + 1\<rparr>
      else t)"

definition UpdateAll0 :: "Terrain \<Rightarrow> IntVector2 \<Rightarrow> bool" where
  \<comment> \<open>the first test for a full update: the size, the spacing or the patch size changed\<close>
  "UpdateAll0 t nv =
     (nv \<noteq> lastNumVertices t \<or> lastSpacing t \<noteq> spacing t \<or> patchSize t \<noteq> lastPatchSize t)"

definition UpdateAll :: "Terrain \<Rightarrow> IntVector2 \<Rightarrow> bool" where
  \<comment> \<open>a full update also when smoothing is on and the source data has to be allocated\<close>
  "UpdateAll t nv = (UpdateAll0 t nv \<or> (smoothing t \<and> sourceHeightData t = None))"

definition Levels :: "Terrain \<Rightarrow> 32 word" where
  \<comment> \<open>the number of LOD levels: one, and one more for every halving of the patch size
     above the minimum, up to the configured maximum\<close>
  "Levels t = NumLodLevelsLoop (word_of_int (patchSize t)) 1 (maxLodLevels t)"

definition PatchCount :: "Terrain \<Rightarrow> Image \<Rightarrow> IntVector2" where
  "PatchCount t img =
     IntVector2 ((img_width img - 1) sdiv patchSize t) ((img_height img - 1) sdiv patchSize t)"

definition VertexCount :: "Terrain \<Rightarrow> Image \<Rightarrow> IntVector2" where
  "VertexCount t img =
     IntVector2 (ix (PatchCount t img) * patchSize t + 1) (iy (PatchCount t img) * patchSize t + 1)"

definition NewHeightData :: "Terrain \<Rightarrow> Image \<Rightarrow> real list option" where
  \<comment> \<open>\<^verbatim>\<open>heightData_\<close> after the allocation; a new array is taken to hold zeros (it is
     written before it is read when the update is full)\<close>
  "NewHeightData t img =
     (if heightData t = None \<or> UpdateAll0 t (VertexCount t img)
      then Some (replicate (nat (ix (VertexCount t img) * iy (VertexCount t img))) 0)
      else heightData t)"

definition NewSourceData :: "Terrain \<Rightarrow> Image \<Rightarrow> real list option" where
  \<comment> \<open>\<^verbatim>\<open>sourceHeightData_\<close> after the allocation\<close>
  "NewSourceData t img =
     (if smoothing t \<and> (sourceHeightData t = None \<or> UpdateAll0 t (VertexCount t img))
      then Some (replicate (nat (ix (VertexCount t img) * iy (VertexCount t img))) 0)
      else if \<not> smoothing t then None
      else sourceHeightData t)"

definition CopyDestination :: "Terrain \<Rightarrow> Image \<Rightarrow> real list" where
  \<comment> \<open>\<^verbatim>\<open>dest\<close>: the source data when smoothing is on, else the height data\<close>
  "CopyDestination t img = the (if smoothing t then NewSourceData t img else NewHeightData t img)"

definition CopiedHeights :: "Terrain \<Rightarrow> Image \<Rightarrow> real list \<times> IntRect" where
  \<comment> \<open>the destination array after the copy of the image, and the update region\<close>
  "CopiedHeights t img =
     CopyHeightData (UpdateAll t (VertexCount t img))
       (NewHeight (spacing t) (VertexCount t img) img) (VertexCount t img)
       (CopyDestination t img)"

definition DirtyPatches :: "Terrain \<Rightarrow> Image \<Rightarrow> bool list" where
  \<comment> \<open>\<^verbatim>\<open>dirtyPatches\<close>: all patches on a full update, else the patches around the update
     region\<close>
  "DirtyPatches t img =
     (let dirty0 = replicate (nat (ix (PatchCount t img) * iy (PatchCount t img)))
                     (UpdateAll t (VertexCount t img))
      in if \<not> UpdateAll t (VertexCount t img)
         then MarkDirty (patchSize t) (PatchCount t img) (Levels t) (snd (CopiedHeights t img))
                dirty0
         else dirty0)"

text \<open>
  \<^verbatim>\<open>CreateGeometry\<close> on a terrain that has a node and a height map, in the stages of the
  source: the members computed from the configuration and the image, the child nodes
  kept, the patches created, the index data, the smoothing, and the geometry of the dirty
  patches. The position of the patch nodes and the drawable parameters copied to a new
  patch are not part of the model.
\<close>

definition KeptChildren :: "Terrain \<Rightarrow> Node \<Rightarrow> Image \<Rightarrow> (int \<times> int \<Rightarrow> TerrainPatch option)" where
  \<comment> \<open>on a full update the patch nodes outside the new grid are removed\<close>
  "KeptChildren t n img =
     (if UpdateAll t (VertexCount t img)
      then (\<lambda>k. if fst k < ix (PatchCount t img) \<and> snd k < iy (PatchCount t img)
                then children n k else None)
      else children n)"

definition PatchNodes :: "Terrain \<Rightarrow> Node \<Rightarrow> Image \<Rightarrow> (int \<times> int \<Rightarrow> TerrainPatch option)" where
  \<comment> \<open>the patch nodes after the loop that creates the missing ones\<close>
  "PatchNodes t n img = CreatePatches (PatchKeys (PatchCount t img)) (KeptChildren t n img)"

definition HeightState :: "Terrain \<Rightarrow> Image \<Rightarrow> Terrain" where
  \<comment> \<open>the terrain after the height data is copied and \<^verbatim>\<open>patches_\<close> is filled\<close>
  "HeightState t img =
     (let pws = Vector2 (vx (spacing t) * real_of_int (patchSize t))
                        (vz (spacing t) * real_of_int (patchSize t));
          np = PatchCount t img;
          nv = VertexCount t img;
          origin = Vector2 (- (1 / 2) * real_of_int (ix np) * ux pws)
                           (- (1 / 2) * real_of_int (iy np) * uy pws)
      in t\<lparr>recreateTerrain := False, numLodLevels := Levels t, patchWorldSize := pws,
            numPatches := np, numVertices := nv, patchWorldOrigin := origin,
            heightData := (if smoothing t then NewHeightData t img
                           else Some (fst (CopiedHeights t img))),
            sourceHeightData := (if smoothing t then Some (fst (CopiedHeights t img))
                                 else NewSourceData t img),
            lastNumVertices := nv, lastPatchSize := patchSize t, lastSpacing := spacing t,
            patches := PatchKeys np\<rparr>)"

definition BuildState :: "Terrain \<Rightarrow> Node \<Rightarrow> Image \<Rightarrow> Terrain" where
  \<comment> \<open>the terrain the geometry of the patches is built from: with the index data on a
     full update, and with the smoothed heights when smoothing is on\<close>
  "BuildState t n img =
     (let t1 = HeightState t img;
          t2 = (if UpdateAll t (VertexCount t img) then CreateIndexData t1 else t1)
      in if smoothing t then UpdateSmoothing t2 (DirtyPatches t img) (PatchNodes t n img)
         else t2)"

definition CreateGeometryWith :: "Terrain \<Rightarrow> Node \<Rightarrow> Image \<Rightarrow> Terrain" where
  "CreateGeometryWith t n img =
     (let prevNumPatches = length (patches t);
          t3 = BuildState t n img;
          ch3 = BuildPatches t3 (DirtyPatches t img) (PatchNodes t n img)
      in SendTerrainCreated prevNumPatches (t3\<lparr>node := Some (n\<lparr>children := ch3\<rparr>)\<rparr>))"

definition CreateGeometry :: "Terrain \<Rightarrow> Terrain" where
  "CreateGeometry t =
     (case node t of
        None \<Rightarrow> t\<lparr>recreateTerrain := False\<rparr>
      | Some n \<Rightarrow>
          (case heightMap t of
             Some img \<Rightarrow> CreateGeometryWith t n img
           | None \<Rightarrow>
               SendTerrainCreated (length (patches t))
                 (t\<lparr>recreateTerrain := False,
                    numLodLevels := Levels t,
                    patchWorldSize := Vector2 (vx (spacing t) * real_of_int (patchSize t))
                                              (vz (spacing t) * real_of_int (patchSize t)),
                    numPatches := IntVector2_ZERO, numVertices := IntVector2_ZERO,
                    patchWorldOrigin := Vector2_ZERO,
                    heightData := None, sourceHeightData := None,
                    lastNumVertices := IntVector2_ZERO, lastPatchSize := patchSize t,
                    lastSpacing := spacing t, patches := []\<rparr>)))"

subsection \<open>Configuration\<close>

definition InvalidPatchSize :: "int \<Rightarrow> bool" where
  \<comment> \<open>the test that makes \<^verbatim>\<open>SetPatchSize\<close> return at once\<close>
  "InvalidPatchSize sz =
     (sz < MIN_PATCH_SIZE \<or> sz > MAX_PATCH_SIZE \<or> \<not> IsPowerOfTwo (word_of_int sz))"

definition SetPatchSize :: "Terrain \<Rightarrow> int \<Rightarrow> Terrain" where
  "SetPatchSize t sz =
     (if InvalidPatchSize sz then t
      else if sz \<noteq> patchSize t then CreateGeometry (t\<lparr>patchSize := sz\<rparr>)
      else t)"

definition SetPatchSizeAttr :: "Terrain \<Rightarrow> int \<Rightarrow> Terrain" where
  "SetPatchSizeAttr t v =
     (if InvalidPatchSize v then t
      else if v \<noteq> patchSize t then t\<lparr>patchSize := v, recreateTerrain := True\<rparr>
      else t)"

definition SetSpacing :: "Terrain \<Rightarrow> Vector3 \<Rightarrow> Terrain" where
  "SetSpacing t sp = (if sp \<noteq> spacing t then CreateGeometry (t\<lparr>spacing := sp\<rparr>) else t)"

definition SetMaxLodLevels :: "Terrain \<Rightarrow> 32 word \<Rightarrow> Terrain" where
  "SetMaxLodLevels t levels =
     (let levels' = Clamp levels MIN_LOD_LEVELS MAX_LOD_LEVELS
      in if levels' \<noteq> maxLodLevels t
         then CreateGeometry (t\<lparr>maxLodLevels := levels', lastPatchSize := 0\<rparr>)
         else t)"

definition SetMaxLodLevelsAttr :: "Terrain \<Rightarrow> 32 word \<Rightarrow> Terrain" where
  "SetMaxLodLevelsAttr t v =
     (let v' = Clamp v MIN_LOD_LEVELS MAX_LOD_LEVELS
      in if v' \<noteq> maxLodLevels t
         then t\<lparr>maxLodLevels := v', lastPatchSize := 0, recreateTerrain := True\<rparr>
         else t)"

definition SetOcclusionLodLevel :: "Terrain \<Rightarrow> 32 word \<Rightarrow> Terrain" where
  "SetOcclusionLodLevel t level =
     (if level \<noteq> occlusionLodLevel t
      then CreateGeometry (t\<lparr>occlusionLodLevel := level, lastPatchSize := 0\<rparr>)
      else t)"

definition SetSmoothing :: "Terrain \<Rightarrow> bool \<Rightarrow> Terrain" where
  "SetSmoothing t enable =
     (if enable \<noteq> smoothing t then CreateGeometry (t\<lparr>smoothing := enable\<rparr>) else t)"

definition SetHeightMapInternal :: "Terrain \<Rightarrow> Image option \<Rightarrow> bool \<Rightarrow> Terrain \<times> bool" where
  \<comment> \<open>the new terrain and the returned flag; the subscription to the reload event of the
     image moves with the height map\<close>
  "SetHeightMapInternal t img recreateNow =
     (if img \<noteq> None \<and> img_compressed (the img) then (t, False)
      else
        (let t1 = t\<lparr>reloadSubscription := img, heightMap := img\<rparr>
         in (if recreateNow then CreateGeometry t1 else t1\<lparr>recreateTerrain := True\<rparr>, True)))"

definition SetHeightMap :: "Terrain \<Rightarrow> Image option \<Rightarrow> Terrain \<times> bool" where
  "SetHeightMap t img = SetHeightMapInternal t img True"

definition ApplyHeightMap :: "Terrain \<Rightarrow> Terrain" where
  "ApplyHeightMap t = (if heightMap t \<noteq> None then CreateGeometry t else t)"

subsection \<open>The error samples of a patch, as the specification words them\<close>

text \<open>
  The set the LOD error of level \<open>i\<close> is the maximum of: the distances between the
  height interpolated on the grid of level \<open>i\<close> and the raw height, over the samples of
  the patch extent that are not on that grid (a coordinate that \<open>2 ^ i\<close> does not
  divide).
\<close>

definition ErrorSamples :: "Terrain \<Rightarrow> IntVector2 \<Rightarrow> nat \<Rightarrow> real set" where
  "ErrorSamples t coords i =
     {\<bar>GetLodHeight t x z i - GetRawHeight t x z\<bar> | x z.
        ix coords * patchSize t \<le> x \<and> x \<le> ix coords * patchSize t + patchSize t
      \<and> iy coords * patchSize t \<le> z \<and> z \<le> iy coords * patchSize t + patchSize t
      \<and> (\<not> 2 ^ i dvd x \<or> \<not> 2 ^ i dvd z)}"

subsection \<open>The shape of the height data\<close>

definition HeightDataShape :: "Terrain \<Rightarrow> bool" where
  \<comment> \<open>the invariant of the height field: when there is height data, it holds
     \<open>width * height\<close> samples of a grid that is not empty, and this grid is the one
     the last regeneration recorded\<close>
  "HeightDataShape t =
     (case heightData t of
        None \<Rightarrow> True
      | Some d \<Rightarrow>
          length d = nat (ix (numVertices t) * iy (numVertices t))
          \<and> 1 \<le> ix (numVertices t) \<and> 1 \<le> iy (numVertices t)
          \<and> lastNumVertices t = numVertices t)"

subsection \<open>A patch and a region of samples\<close>


subsection \<open>The changed samples and their bounding rectangle\<close>



subsection \<open>Upright nodes\<close>

definition Upright :: "Node \<Rightarrow> bool" where
  \<comment> \<open>the node the source assumes (``This assumes that the terrain scene node is
     upright''): moving a world point up or down leaves the local \<open>x\<close> and \<open>z\<close> of the
     point as they are, as under a translation, a scale and a rotation about the
     vertical axis\<close>
  "Upright n =
     (\<forall>p h.
        vx (worldTransformInverse n (Vector3 (vx (worldTransform n p)) h (vz (worldTransform n p))))
          = vx p
      \<and> vz (worldTransformInverse n (Vector3 (vx (worldTransform n p)) h (vz (worldTransform n p))))
          = vz p)"

subsection \<open>Example configurations\<close>

definition IdentityNode :: Node where
  \<comment> \<open>a node at the origin, neither rotated nor scaled, without children\<close>
  "IdentityNode =
     \<lparr> worldTransform = (\<lambda>p. p), worldTransformInverse = (\<lambda>p. p),
       worldScale = Vector3 1 1 1, worldPosition = Vector3 0 0 0, worldRotation = (\<lambda>p. p),
       children = (\<lambda>k. None) \<rparr>"

definition Ramp5 :: Terrain where
  \<comment> \<open>a terrain of one patch of size 4 on the identity node, with the members the height
     queries read as a full update from an image of 5 by 5 pixels leaves them; sample
     \<open>k\<close> of the height data is \<open>k / 4\<close>\<close>
  "Ramp5 =
     Terrain_new\<lparr>node := Some IdentityNode,
       heightData := Some (map (\<lambda>k. real k / 4) [0..<25]),
       lastSpacing := DEFAULT_SPACING,
       patchWorldOrigin := Vector2 (- 2) (- 2), patchWorldSize := Vector2 4 4,
       numVertices := IntVector2 5 5, lastNumVertices := IntVector2 5 5,
       numPatches := IntVector2 1 1, patchSize := 4, lastPatchSize := 4,
       patches := [(0, 0)]\<rparr>"

definition Detached5 :: Terrain where
  \<comment> \<open>the same terrain after its component was removed from the node\<close>
  "Detached5 = Ramp5\<lparr>node := None\<rparr>"

definition ShiftedNode :: Node where
  \<comment> \<open>an upright node: scaled by 2 along \<open>x\<close> and \<open>z\<close> and moved to \<open>(10, 3, - 5)\<close>\<close>
  "ShiftedNode =
     \<lparr> worldTransform = (\<lambda>p. Vector3 (2 * vx p + 10) (vy p + 3) (2 * vz p - 5)),
       worldTransformInverse = (\<lambda>p. Vector3 ((vx p - 10) / 2) (vy p - 3) ((vz p + 5) / 2)),
       worldScale = Vector3 2 1 2, worldPosition = Vector3 10 3 (- 5),
       worldRotation = (\<lambda>p. p), children = (\<lambda>k. None) \<rparr>"

definition Shifted5 :: Terrain where
  \<comment> \<open>the ramp on the scaled and moved node\<close>
  "Shifted5 = Ramp5\<lparr>node := Some ShiftedNode\<rparr>"

definition TiltedNode :: Node where
  \<comment> \<open>a node at the origin rotated about the \<open>z\<close> axis by the angle whose cosine is
     \<open>4 / 5\<close> and whose sine is \<open>3 / 5\<close>\<close>
  "TiltedNode =
     \<lparr> worldTransform =
         (\<lambda>p. Vector3 ((4 * vx p - 3 * vy p) / 5) ((3 * vx p + 4 * vy p) / 5) (vz p)),
       worldTransformInverse =
         (\<lambda>p. Vector3 ((4 * vx p + 3 * vy p) / 5) ((4 * vy p - 3 * vx p) / 5) (vz p)),
       worldScale = Vector3 1 1 1, worldPosition = Vector3 0 0 0,
       worldRotation =
         (\<lambda>p. Vector3 ((4 * vx p - 3 * vy p) / 5) ((3 * vx p + 4 * vy p) / 5) (vz p)),
       children = (\<lambda>k. None) \<rparr>"

definition Tilted5 :: Terrain where
  \<comment> \<open>the ramp on the tilted node\<close>
  "Tilted5 = Ramp5\<lparr>node := Some TiltedNode\<rparr>"

definition ZeroSpacing5 :: Terrain where
  \<comment> \<open>the ramp after \<^verbatim>\<open>SetSpacing\<close> with no extent along \<open>x\<close>: the patch is 0 wide and its
     origin is at 0 along \<open>x\<close>\<close>
  "ZeroSpacing5 =
     Ramp5\<lparr>spacing := Vector3 0 (1 / 4) 1, lastSpacing := Vector3 0 (1 / 4) 1,
       patchWorldOrigin := Vector2 0 (- 2), patchWorldSize := Vector2 0 4\<rparr>"

definition FinePatch :: TerrainPatch where
  \<comment> \<open>a patch at LOD level 0 whose only neighbour is the one to the east\<close>
  "FinePatch = (NewPatch (0, 0))\<lparr>eastPatch := Some (PatchRef ThisTerrain 1)\<rparr>"

definition CoarseEastHeap :: PatchHeap where
  \<comment> \<open>the patch to the east is at LOD level 1\<close>
  "CoarseEastHeap =
     (\<lambda>r. if r = PatchRef ThisTerrain 1 then Some ((NewPatch (1, 0))\<lparr>lodLevel := 1\<rparr>) else None)"

definition Image65 :: Image where
  \<comment> \<open>a black height image of 65 by 65 pixels with one component\<close>
  "Image65 =
     \<lparr>img_width = 65, img_height = 65, img_components = 1, img_compressed = False,
      img_data = replicate (65 * 65) 0\<rparr>"

definition Configured65 :: Terrain where
  \<comment> \<open>a fresh terrain on the identity node, with the maximum of LOD levels set to 2 and
     the 65 by 65 image as its height map, before the geometry is created\<close>
  "Configured65 =
     (SetMaxLodLevels (Terrain_new\<lparr>node := Some IdentityNode\<rparr>) 2)
       \<lparr>reloadSubscription := Some Image65, heightMap := Some Image65\<rparr>"

definition Changed17 :: Image where
  \<comment> \<open>a black image of 17 by 17 pixels but for the value 4 at column 10 of row 6, which
     is the sample \<open>(10, 10)\<close> of the terrain (the rows are flipped)\<close>
  "Changed17 =
     \<lparr>img_width = 17, img_height = 17, img_components = 1, img_compressed = False,
      img_data = (replicate (17 * 17) 0)[112 := 4]\<rparr>"

definition OldPatch :: "int \<times> int \<Rightarrow> TerrainPatch" where
  \<comment> \<open>a patch with one vertex in its buffer, to tell it from a rebuilt one\<close>
  "OldPatch k =
     (NewPatch k)\<lparr>vertexData :=
        [\<lparr>v_position = Vector3 0 0 0, v_normal = Vector3 0 1 0, v_texCoord = Vector2 0 0,
          v_texCoord2 = None, v_tangent = Vector3 1 0 0, v_tangentW = 1\<rparr>]\<rparr>"

definition Node17 :: Node where
  "Node17 =
     IdentityNode\<lparr>children :=
       (\<lambda>k. if k \<in> set (PatchKeys (IntVector2 2 2)) then Some (OldPatch k) else None)\<rparr>"

definition Built17 :: Terrain where
  \<comment> \<open>a terrain of 2 by 2 patches of size 8 with 2 LOD levels, as a full update from a
     black image of 17 by 17 pixels leaves its members, whose height map now is
     \<open>Changed17\<close>\<close>
  "Built17 =
     Terrain_new\<lparr>node := Some Node17, heightMap := Some Changed17,
       heightData := Some (replicate (17 * 17) 0),
       lastSpacing := DEFAULT_SPACING,
       patchWorldOrigin := Vector2 (- 8) (- 8), patchWorldSize := Vector2 8 8,
       numVertices := IntVector2 17 17, lastNumVertices := IntVector2 17 17,
       numPatches := IntVector2 2 2, patchSize := 8, lastPatchSize := 8,
       numLodLevels := 2, maxLodLevels := 2,
       patches := PatchKeys (IntVector2 2 2)\<rparr>"

definition PendingTerrain :: Terrain where
  \<comment> \<open>a fresh terrain whose patch size was set to 64 through the attribute, so that
     a regeneration is pending\<close>
  "PendingTerrain = SetPatchSizeAttr Terrain_new 64"

section \<open>Properties\<close>

subsection \<open>Queries on a terrain without a node or without height data\<close>

text \<open>
  C10. A terrain that is not attached to a node answers \<^verbatim>\<open>GetHeight\<close> with 0 and
  \<^verbatim>\<open>GetNormal\<close> with the up vector \<open>(0, 1, 0)\<close> at every world position, whatever its
  height data is; \<^verbatim>\<open>GetRawHeight\<close> answers 0 at every coordinate when no height data is
  allocated.
\<close>

theorem detached_queries_default:
  "(node t = None \<longrightarrow> GetHeight t p = 0 \<and> GetNormal t p = Vector3 0 1 0)
   \<and> (heightData t = None \<longrightarrow> GetRawHeight t x z = 0)"
  by (simp add: GetHeight_def GetNormal_def GetRawHeight_def Vector3_UP_def)

theorem detached_queries_default_witness:
  "GetHeight Terrain_new (Vector3 5 7 9) = 0
   \<and> GetNormal Terrain_new (Vector3 5 7 9) = Vector3 0 1 0
   \<and> GetRawHeight Terrain_new 3 (- 2) = 0"
  using detached_queries_default [of Terrain_new "Vector3 5 7 9" 3 "- 2"]
  by (simp add: Terrain_new_def)

subsection \<open>Rejecting a compressed height map\<close>

text \<open>
  C7. Setting a block-compressed image as the height map returns false and leaves the
  terrain as it was: height map, height data and every other field; no geometry is
  created and no regeneration is scheduled. This holds for both ways of calling
  (\<^verbatim>\<open>recreateNow\<close> true or false).
\<close>

theorem compressed_height_map_rejected:
  "img_compressed img \<Longrightarrow>
     SetHeightMapInternal t (Some img) recreateNow = (t, False)
     \<and> SetHeightMap t (Some img) = (t, False)"
  by (simp add: SetHeightMapInternal_def SetHeightMap_def)

theorem compressed_height_map_rejected_witness:
  "SetHeightMap Built17 (Some (Image65\<lparr>img_compressed := True\<rparr>)) = (Built17, False)"
  using compressed_height_map_rejected [of "Image65\<lparr>img_compressed := True\<rparr>" Built17 True]
  by simp

subsection \<open>Continuity of the interpolation across the diagonal of a cell\<close>

text \<open>
  C4. For corner heights \<open>h00\<close>, \<open>h10\<close>, \<open>h01\<close>, \<open>h11\<close> and fractions with
  \<open>xFrac + zFrac = 1\<close>, the branch of \<^verbatim>\<open>GetHeight\<close> for the upper triangle and the one for
  the lower triangle give the same value. Hence at a point on the diagonal, where the code
  takes the upper branch, the height is what the lower branch gives there.
\<close>

theorem bilinear_continuity:
  "(xFrac + zFrac = 1 \<longrightarrow>
      UpperTriangle h11 h01 h10 xFrac zFrac = LowerTriangle h00 h10 h01 xFrac zFrac)
   \<and> (Fract xPos + Fract zPos = 1 \<longrightarrow>
      GetHeightLocal t xPos zPos =
        LowerTriangle (GetRawHeight t (sint (FloatToUnsigned xPos)) (sint (FloatToUnsigned zPos)))
          (GetRawHeight t (sint (FloatToUnsigned xPos + 1)) (sint (FloatToUnsigned zPos)))
          (GetRawHeight t (sint (FloatToUnsigned xPos)) (sint (FloatToUnsigned zPos + 1)))
          (Fract xPos) (Fract zPos))"
proof -
  have a: "UpperTriangle a11 a01 a10 xF zF = LowerTriangle a00 a10 a01 xF zF"
    if "xF + zF = 1" for a11 a01 a10 a00 xF zF :: real
  proof -
    from that have z: "zF = 1 - xF"
      by simp
    show ?thesis
      unfolding z UpperTriangle_def LowerTriangle_def Barycentric_def
      by (simp add: algebra_simps)
  qed
  show ?thesis
    by (auto simp add: a GetHeightLocal_def Let_def)
qed

theorem bilinear_continuity_witness:
  "UpperTriangle 4 3 2 (1 / 4) (3 / 4) = LowerTriangle 1 2 3 (1 / 4) (3 / 4)
   \<and> GetHeightLocal Terrain_new (1 / 4) (3 / 4) =
       LowerTriangle (GetRawHeight Terrain_new (sint (FloatToUnsigned (1 / 4)))
                        (sint (FloatToUnsigned (3 / 4))))
          (GetRawHeight Terrain_new (sint (FloatToUnsigned (1 / 4) + 1))
                        (sint (FloatToUnsigned (3 / 4))))
          (GetRawHeight Terrain_new (sint (FloatToUnsigned (1 / 4)))
                        (sint (FloatToUnsigned (3 / 4) + 1)))
          (Fract (1 / 4)) (Fract (3 / 4))"
proof -
  have f: "Fract (1 / 4) + Fract (3 / 4) = 1"
    by (simp add: Fract_def)
  have g: "(1 / 4 :: real) + 3 / 4 = 1"
    by simp
  from f g bilinear_continuity [of "1 / 4" "3 / 4" 4 3 2 1 "1 / 4" "3 / 4" Terrain_new]
  show ?thesis
    by blast
qed

subsection \<open>Clamped reads of the height data\<close>





subsection \<open>Heightmap coordinates to world and back\<close>

lemma RoundToInt_near:
  assumes "\<bar>v - real_of_int k\<bar> < 1 / 2"
  shows "RoundToInt v = k"
proof -
  from assms have lo: "real_of_int k - 1 / 2 < v" and hi: "v < real_of_int k + 1 / 2"
    by linarith+
  show ?thesis
  proof (cases "v \<ge> 0")
    case True
    have "\<lfloor>v + 1 / 2\<rfloor> = k"
      using lo hi by (intro floor_unique) linarith+
    with True show ?thesis
      by (simp add: RoundToInt_def)
  next
    case False
    have "\<lceil>v - 1 / 2\<rceil> = k"
      using lo hi by (intro ceiling_unique) linarith+
    with False show ?thesis
      by (simp add: RoundToInt_def)
  qed
qed

lemma RoundToInt_of_int: "RoundToInt (real_of_int k) = k"
  by (rule RoundToInt_near) simp

lemma GetHeightLocal_grid: "GetHeightLocal t 2 3 = GetRawHeight t 2 3"
proof -
  have "sint (FloatToUnsigned 2) = 2" "sint (FloatToUnsigned 3) = 3"
    by (simp_all add: FloatToUnsigned_def)
  then show ?thesis
    by (simp add: GetHeightLocal_def Let_def Fract_def LowerTriangle_def Barycentric_def)
qed

lemma Tilted5_fields:
  "node Tilted5 = Some TiltedNode"
  "spacing Tilted5 = Vector3 1 (1 / 4) 1"
  "patchWorldOrigin Tilted5 = Vector2 (- 2) (- 2)"
  "numVertices Tilted5 = IntVector2 5 5"
  "heightData Tilted5 = Some (map (\<lambda>k. real k / 4) [0..<25])"
  by (simp_all add: Tilted5_def Ramp5_def Terrain_new_def DEFAULT_SPACING_def)

lemma tilted_world:
  "HeightMapToWorld Tilted5 (IntVector2 2 1) = Vector3 0 (17 / 4) 1"
proof -
  have r: "GetRawHeight Tilted5 2 3 = 17 / 4"
    by (simp add: GetRawHeight_def HeightIndex_def Clamp_def Tilted5_fields)
  have "GetHeight Tilted5 (Vector3 0 0 1) = GetHeightLocal Tilted5 2 3"
    by (simp add: GetHeight_def Let_def Tilted5_fields TiltedNode_def)
  then have h: "GetHeight Tilted5 (Vector3 0 0 1) = 17 / 4"
    by (simp add: GetHeightLocal_grid r)
  have "HeightMapToWorld Tilted5 (IntVector2 2 1)
      = Vector3 0 (GetHeight Tilted5 (Vector3 0 0 1)) 1"
    by (simp add: HeightMapToWorld_def Let_def Tilted5_fields TiltedNode_def)
  then show ?thesis
    by (simp add: h)
qed

lemma tilted_round_trip:
  "WorldToHeightMap Tilted5 (HeightMapToWorld Tilted5 (IntVector2 2 1)) = IntVector2 4 1"
proof -
  have "RoundToInt (91 / 20) = 5"
    by (rule RoundToInt_near) simp
  moreover have "RoundToInt 3 = 3"
    using RoundToInt_of_int [of 3] by simp
  ultimately show ?thesis
    unfolding tilted_world
    by (simp add: WorldToHeightMap_def Let_def Tilted5_fields TiltedNode_def Clamp_def)
qed

lemma zero_spacing_collision:
  "HeightMapToWorld ZeroSpacing5 (IntVector2 2 1) = HeightMapToWorld ZeroSpacing5 (IntVector2 0 1)"
  by (simp add: HeightMapToWorld_def Let_def ZeroSpacing5_def Ramp5_def)

text \<open>
  C8, as stated, for every terrain: false, in three ways, each at the coordinate \<open>(2, 1)\<close>
  of a grid of 5 by 5 vertices.
  \<^item> A terrain that is not attached to a node maps every heightmap coordinate to the zero
    vector and every world position to \<open>(0, 0)\<close>: the coordinate comes back as \<open>(0, 0)\<close>.
  \<^item> \<^verbatim>\<open>HeightMapToWorld\<close> replaces the world height of the point by the height of the
    terrain there. On a node that is not upright this moves the local \<open>x\<close> of the point:
    on the tilted node the coordinate comes back as \<open>(4, 1)\<close>.
  \<^item> With no spacing along \<open>x\<close> all the columns have the same world position: \<open>(2, 1)\<close>
    and \<open>(0, 1)\<close> are mapped to the same point, so they do not both come back.
\<close>

theorem round_trip_counterexample:
  "0 \<le> (2::int) \<and> 2 \<le> ix (numVertices Detached5) - 1
   \<and> 0 \<le> (1::int) \<and> 1 \<le> iy (numVertices Detached5) - 1
   \<and> numVertices Tilted5 = numVertices Detached5
   \<and> numVertices ZeroSpacing5 = numVertices Detached5
   \<and> WorldToHeightMap Detached5 (HeightMapToWorld Detached5 (IntVector2 2 1)) = IntVector2 0 0
   \<and> WorldToHeightMap Tilted5 (HeightMapToWorld Tilted5 (IntVector2 2 1)) = IntVector2 4 1
   \<and> HeightMapToWorld ZeroSpacing5 (IntVector2 2 1)
       = HeightMapToWorld ZeroSpacing5 (IntVector2 0 1)
   \<and> \<not> (WorldToHeightMap ZeroSpacing5 (HeightMapToWorld ZeroSpacing5 (IntVector2 2 1))
           = IntVector2 2 1
        \<and> WorldToHeightMap ZeroSpacing5 (HeightMapToWorld ZeroSpacing5 (IntVector2 0 1))
           = IntVector2 0 1)"
proof -
  have d: "WorldToHeightMap Detached5 (HeightMapToWorld Detached5 (IntVector2 2 1)) = IntVector2 0 0"
    by (simp add: WorldToHeightMap_def HeightMapToWorld_def Detached5_def Ramp5_def
        IntVector2_ZERO_def)
  have z: "\<not> (WorldToHeightMap ZeroSpacing5 (HeightMapToWorld ZeroSpacing5 (IntVector2 2 1))
           = IntVector2 2 1
        \<and> WorldToHeightMap ZeroSpacing5 (HeightMapToWorld ZeroSpacing5 (IntVector2 0 1))
           = IntVector2 0 1)"
    unfolding zero_spacing_collision by simp
  have nv: "numVertices Detached5 = IntVector2 5 5" "numVertices Tilted5 = IntVector2 5 5"
    "numVertices ZeroSpacing5 = IntVector2 5 5"
    by (simp_all add: Detached5_def Tilted5_def ZeroSpacing5_def Ramp5_def)
  from d z tilted_round_trip zero_spacing_collision show ?thesis
    by (simp add: nv)
qed

text \<open>
  C8, amended. On a terrain attached to an upright node, with non-zero spacing along \<open>x\<close>
  and \<open>z\<close>, every heightmap coordinate \<open>(x, z)\<close> within the vertex grid comes back from
  \<^verbatim>\<open>WorldToHeightMap (HeightMapToWorld (x, z))\<close> as \<open>(x, z)\<close>: the world position lies on
  the sample, the clamp does not move a coordinate of the grid, and the two flips of the
  row axis cancel. The tolerance is half a sample: \<^verbatim>\<open>WorldToHeightMap\<close> gives \<open>(x, z)\<close>
  at every world position whose local position is less than half a sample away from the
  sample of \<open>(x, z)\<close>, along \<open>x\<close> and along \<open>z\<close>.
\<close>

theorem round_trip_upright:
  assumes n: "node t = Some n" and up: "Upright n"
    and sx: "vx (spacing t) \<noteq> 0" and sz: "vz (spacing t) \<noteq> 0"
    and x: "0 \<le> x" "x \<le> ix (numVertices t) - 1"
    and z: "0 \<le> z" "z \<le> iy (numVertices t) - 1"
  shows "WorldToHeightMap t (HeightMapToWorld t (IntVector2 x z)) = IntVector2 x z
       \<and> (\<forall>w. \<bar>(vx (worldTransformInverse n w) - ux (patchWorldOrigin t)) / vx (spacing t)
                  - real_of_int x\<bar> < 1 / 2
              \<and> \<bar>(vz (worldTransformInverse n w) - uy (patchWorldOrigin t)) / vz (spacing t)
                  - real_of_int (iy (numVertices t) - 1 - z)\<bar> < 1 / 2 \<longrightarrow>
              WorldToHeightMap t w = IntVector2 x z)"
proof -
  have near: "WorldToHeightMap t w = IntVector2 x z"
    if a: "\<bar>(vx (worldTransformInverse n w) - ux (patchWorldOrigin t)) / vx (spacing t)
                  - real_of_int x\<bar> < 1 / 2"
      and b: "\<bar>(vz (worldTransformInverse n w) - uy (patchWorldOrigin t)) / vz (spacing t)
                  - real_of_int (iy (numVertices t) - 1 - z)\<bar> < 1 / 2" for w
  proof -
    have rx: "RoundToInt ((vx (worldTransformInverse n w) - ux (patchWorldOrigin t))
        / vx (spacing t)) = x"
      by (rule RoundToInt_near [OF a])
    have rz: "RoundToInt ((vz (worldTransformInverse n w) - uy (patchWorldOrigin t))
        / vz (spacing t)) = iy (numVertices t) - 1 - z"
      by (rule RoundToInt_near [OF b])
    have "WorldToHeightMap t w =
        IntVector2
          (Clamp (RoundToInt ((vx (worldTransformInverse n w) - ux (patchWorldOrigin t))
              / vx (spacing t))) 0 (ix (numVertices t) - 1))
          (iy (numVertices t) - 1 -
           Clamp (RoundToInt ((vz (worldTransformInverse n w) - uy (patchWorldOrigin t))
              / vz (spacing t))) 0 (iy (numVertices t) - 1))"
      using n by (simp add: WorldToHeightMap_def Let_def)
    also have "\<dots> = IntVector2 x z"
      unfolding rx rz using x z by (simp add: Clamp_def)
    finally show ?thesis .
  qed
  let ?w = "HeightMapToWorld t (IntVector2 x z)"
  have e: "(vx (worldTransformInverse n ?w) - ux (patchWorldOrigin t)) / vx (spacing t)
            = real_of_int x
      \<and> (vz (worldTransformInverse n ?w) - uy (patchWorldOrigin t)) / vz (spacing t)
          = real_of_int (iy (numVertices t) - 1 - z)"
    using n sx sz up [unfolded Upright_def] by (simp add: HeightMapToWorld_def Let_def)
  have "WorldToHeightMap t ?w = IntVector2 x z"
    by (rule near) (simp_all add: e)
  with near show ?thesis
    by blast
qed

theorem round_trip_upright_witness:
  "WorldToHeightMap Shifted5 (HeightMapToWorld Shifted5 (IntVector2 2 1)) = IntVector2 2 1
   \<and> HeightMapToWorld Shifted5 (IntVector2 2 1) = Vector3 10 (29 / 4) (- 3)
   \<and> WorldToHeightMap Shifted5 (Vector3 (53 / 5) 9 (- 17 / 5)) = IntVector2 2 1"
proof -
  have n: "node Shifted5 = Some ShiftedNode"
    by (simp add: Shifted5_def Ramp5_def)
  have up: "Upright ShiftedNode"
    by (simp add: Upright_def ShiftedNode_def)
  have s: "vx (spacing Shifted5) \<noteq> 0" "vz (spacing Shifted5) \<noteq> 0"
    by (simp_all add: Shifted5_def Ramp5_def Terrain_new_def DEFAULT_SPACING_def)
  have b: "0 \<le> (2::int)" "2 \<le> ix (numVertices Shifted5) - 1"
    "0 \<le> (1::int)" "1 \<le> iy (numVertices Shifted5) - 1"
    by (simp_all add: Shifted5_def Ramp5_def)
  note T = round_trip_upright [OF n up s b]
  have fields: "spacing Shifted5 = Vector3 1 (1 / 4) 1"
    "patchWorldOrigin Shifted5 = Vector2 (- 2) (- 2)"
    "numVertices Shifted5 = IntVector2 5 5"
    "heightData Shifted5 = Some (map (\<lambda>k. real k / 4) [0..<25])"
    by (simp_all add: Shifted5_def Ramp5_def Terrain_new_def DEFAULT_SPACING_def)
  have r: "GetRawHeight Shifted5 2 3 = 17 / 4"
    by (simp add: GetRawHeight_def HeightIndex_def Clamp_def fields)
  have "GetHeight Shifted5 (Vector3 10 3 (- 3)) = GetHeightLocal Shifted5 2 3 + 3"
    by (simp add: GetHeight_def Let_def n fields ShiftedNode_def)
  then have h: "GetHeight Shifted5 (Vector3 10 3 (- 3)) = 29 / 4"
    by (simp add: GetHeightLocal_grid r)
  have "HeightMapToWorld Shifted5 (IntVector2 2 1)
      = Vector3 10 (GetHeight Shifted5 (Vector3 10 3 (- 3))) (- 3)"
    by (simp add: HeightMapToWorld_def Let_def n fields ShiftedNode_def)
  then have w: "HeightMapToWorld Shifted5 (IntVector2 2 1) = Vector3 10 (29 / 4) (- 3)"
    by (simp add: h)
  from T [THEN conjunct2, rule_format, of "Vector3 (53 / 5) 9 (- 17 / 5)"]
  have t: "WorldToHeightMap Shifted5 (Vector3 (53 / 5) 9 (- 17 / 5)) = IntVector2 2 1"
    by (simp add: fields ShiftedNode_def)
  from T [THEN conjunct1] w t show ?thesis
    by simp
qed


subsection \<open>Configuration requests\<close>

lemma pow2_range:
  "\<forall>n \<in> {4..128::int}. IsPowerOfTwo (word_of_int n) \<longrightarrow> n \<in> {4, 8, 16, 32, 64, 128}"
  by code_simp

lemma valid_patch_size_pow2:
  assumes "\<not> InvalidPatchSize sz"
  shows "\<exists>k::nat. sz = 2 ^ k"
proof -
  from assms have r: "sz \<in> {4..128}" and p: "IsPowerOfTwo (word_of_int sz)"
    by (simp_all add: InvalidPatchSize_def MIN_PATCH_SIZE_def MAX_PATCH_SIZE_def)
  with pow2_range have "sz \<in> {4, 8, 16, 32, 64, 128}"
    by blast
  then consider "sz = 2 ^ 2" | "sz = 2 ^ 3" | "sz = 2 ^ 4" | "sz = 2 ^ 5" | "sz = 2 ^ 6"
    | "sz = 2 ^ 7"
    by auto
  then show ?thesis
    by (cases; blast)
qed

lemma UpdateSmoothing_maxLodLevels:
  "maxLodLevels (UpdateSmoothing t dirty ch) = maxLodLevels t"
  unfolding UpdateSmoothing_def
  by (rule fold_invariant [where Q = "\<lambda>_. True" and P = "\<lambda>s. maxLodLevels s = maxLodLevels t"])
     (auto split: option.splits)

lemma CreateGeometry_maxLodLevels:
  "maxLodLevels (CreateGeometry t) = maxLodLevels t"
  by (simp add: CreateGeometry_def CreateGeometryWith_def BuildState_def HeightState_def
      SendTerrainCreated_def Let_def CreateIndexData_def UpdateSmoothing_maxLodLevels
      split: option.splits)

text \<open>
  C6, as stated: false in its second half. A maximum of LOD levels outside \<open>[1, 4]\<close> whose
  clamped value is the current maximum changes nothing and runs no regeneration: on a
  fresh terrain (maximum 4) with a regeneration pending, the request for 7 levels
  leaves the terrain as it is, still pending, where \<^verbatim>\<open>CreateGeometry\<close> would have cleared
  the flag.
\<close>

theorem max_lod_levels_no_regeneration_counterexample:
  "SetMaxLodLevels PendingTerrain 7 = PendingTerrain
   \<and> recreateTerrain PendingTerrain
   \<and> \<not> recreateTerrain (CreateGeometry PendingTerrain)"
  by (simp add: PendingTerrain_def SetMaxLodLevels_def SetPatchSizeAttr_def
      InvalidPatchSize_def Terrain_new_def Clamp_def MIN_LOD_LEVELS_def MAX_LOD_LEVELS_def
      MIN_PATCH_SIZE_def MAX_PATCH_SIZE_def DEFAULT_PATCH_SIZE_def IsPowerOfTwo_def
      CreateGeometry_def)

text \<open>
  C6, amended. A patch size that is not a power of two or lies outside \<open>[4, 128]\<close> is
  ignored: \<^verbatim>\<open>SetPatchSize\<close> returns the terrain unchanged, so nothing is regenerated. A
  maximum of LOD levels is clamped into \<open>[1, 4]\<close> and never rejected: afterwards the
  maximum is the clamped value; when it differs from the current maximum the call is a
  regeneration (\<^verbatim>\<open>CreateGeometry\<close>, forced to be a full one by \<^verbatim>\<open>lastPatchSize_ = 0\<close>) of
  the terrain with the new maximum, and when it equals the current maximum the terrain is
  unchanged.
\<close>

theorem configuration_requests:
  "((sz < 4 \<or> 128 < sz \<or> (\<forall>k::nat. sz \<noteq> 2 ^ k)) \<longrightarrow> SetPatchSize t sz = t)
   \<and> maxLodLevels (SetMaxLodLevels t levels) = Clamp levels 1 4
   \<and> (1::32 word) \<le> Clamp levels 1 4 \<and> Clamp levels 1 4 \<le> (4::32 word)
   \<and> (Clamp levels 1 4 \<noteq> maxLodLevels t \<longrightarrow>
        SetMaxLodLevels t levels =
          CreateGeometry (t\<lparr>maxLodLevels := Clamp levels 1 4, lastPatchSize := 0\<rparr>))
   \<and> (Clamp levels 1 4 = maxLodLevels t \<longrightarrow> SetMaxLodLevels t levels = t)"
proof -
  have a: "SetPatchSize t sz = t" if "sz < 4 \<or> 128 < sz \<or> (\<forall>k::nat. sz \<noteq> 2 ^ k)"
  proof -
    from that valid_patch_size_pow2 [of sz] have "InvalidPatchSize sz"
      by (auto simp add: InvalidPatchSize_def MIN_PATCH_SIZE_def MAX_PATCH_SIZE_def)
    then show ?thesis
      by (simp add: SetPatchSize_def)
  qed
  have b: "(1::32 word) \<le> Clamp levels 1 4 \<and> Clamp levels 1 4 \<le> (4::32 word)"
    by (simp add: Clamp_def) unat_arith
  show ?thesis
    using a b
    by (simp add: SetMaxLodLevels_def Let_def MIN_LOD_LEVELS_def MAX_LOD_LEVELS_def
        CreateGeometry_maxLodLevels)
qed

theorem configuration_requests_witness:
  "SetPatchSize Terrain_new 3 = Terrain_new
   \<and> maxLodLevels (SetMaxLodLevels Terrain_new 9) = 4
   \<and> SetMaxLodLevels Terrain_new 0 =
       CreateGeometry (Terrain_new\<lparr>maxLodLevels := 1, lastPatchSize := 0\<rparr>)
   \<and> SetMaxLodLevels Terrain_new 9 = Terrain_new"
proof -
  have c0: "Clamp (0::32 word) 1 4 = 1" and c9: "Clamp (9::32 word) 1 4 = 4"
    by (simp_all add: Clamp_def)
  have m: "maxLodLevels Terrain_new = 4"
    by (simp add: Terrain_new_def MAX_LOD_LEVELS_def)
  from configuration_requests [of 3 Terrain_new 9] configuration_requests [of 3 Terrain_new 0] m
  show ?thesis
    unfolding c0 c9 by simp
qed

subsection \<open>The stitch bits of the selected draw range\<close>

lemma and_STITCH_NORTH: "(w AND STITCH_NORTH \<noteq> 0) = bit w 0" for w :: "32 word"
  using bit_iff_and_push_bit_not_eq_0 [of w 0] by (simp add: STITCH_NORTH_def)

lemma and_STITCH_SOUTH: "(w AND STITCH_SOUTH \<noteq> 0) = bit w 1" for w :: "32 word"
  using bit_iff_and_push_bit_not_eq_0 [of w 1] by (simp add: STITCH_SOUTH_def)

lemma and_STITCH_WEST: "(w AND STITCH_WEST \<noteq> 0) = bit w 2" for w :: "32 word"
  using bit_iff_and_push_bit_not_eq_0 [of w 2] by (simp add: STITCH_WEST_def)

lemma and_STITCH_EAST: "(w AND STITCH_EAST \<noteq> 0) = bit w 3" for w :: "32 word"
  using bit_iff_and_push_bit_not_eq_0 [of w 3] by (simp add: STITCH_EAST_def)

lemma bit_STITCH:
  "bit STITCH_NORTH n = (n = 0)" "bit STITCH_SOUTH n = (n = 1)"
  "bit STITCH_WEST n = (n = 2)" "bit STITCH_EAST n = (n = 3)"
     apply (simp_all add: STITCH_NORTH_def STITCH_SOUTH_def STITCH_WEST_def STITCH_EAST_def
      bit_1_iff)
  using bit_push_bit_iff [of 1 "1::32 word" n] bit_push_bit_iff [of 2 "1::32 word" n]
    bit_push_bit_iff [of 3 "1::32 word" n]
    apply (auto simp add: bit_1_iff)
  done

lemma Coarser_iff: "Coarser nb level = (\<exists>q. nb = Some q \<and> level < lodLevel q)"
  by (cases nb) (simp_all add: Coarser_def)

lemma DrawRangeIndex_bits:
  assumes "lodLevel p < numLodLevels t - 1" and "n < 4"
  shows "bit (DrawRangeIndex t heap p) n =
      ((n = 0 \<and> Coarser (Deref heap (northPatch p)) (lodLevel p))
     \<or> (n = 1 \<and> Coarser (Deref heap (southPatch p)) (lodLevel p))
     \<or> (n = 2 \<and> Coarser (Deref heap (westPatch p)) (lodLevel p))
     \<or> (n = 3 \<and> Coarser (Deref heap (eastPatch p)) (lodLevel p)))"
  using assms
  by (auto simp add: DrawRangeIndex_def Let_def bit_or_iff bit_push_bit_iff bit_STITCH)

lemma below_coarsest:
  fixes a b n :: "32 word"
  assumes "a < b" and "b < n"
  shows "a < n - 1"
  using assms by unat_arith

text \<open>
  C2. For a patch whose LOD level is below the coarsest, the draw range index computed by
  \<^verbatim>\<open>UpdatePatchLod\<close> has the bit of an edge set exactly when the neighbour on that edge
  exists and is at a strictly greater level; a null neighbour sets no bit. In particular,
  when the east neighbour is at a coarser one of the terrain's levels, the bit
  \<^verbatim>\<open>STITCH_EAST\<close> is set. When the index is within the table, the geometry of the patch
  gets the draw range at that index.
\<close>

theorem stitch_bits_follow_neighbours:
  "(lodLevel p < numLodLevels t - 1 \<longrightarrow>
      (DrawRangeIndex t heap p AND STITCH_NORTH \<noteq> 0) =
         (\<exists>q. Deref heap (northPatch p) = Some q \<and> lodLevel p < lodLevel q)
    \<and> (DrawRangeIndex t heap p AND STITCH_SOUTH \<noteq> 0) =
         (\<exists>q. Deref heap (southPatch p) = Some q \<and> lodLevel p < lodLevel q)
    \<and> (DrawRangeIndex t heap p AND STITCH_WEST \<noteq> 0) =
         (\<exists>q. Deref heap (westPatch p) = Some q \<and> lodLevel p < lodLevel q)
    \<and> (DrawRangeIndex t heap p AND STITCH_EAST \<noteq> 0) =
         (\<exists>q. Deref heap (eastPatch p) = Some q \<and> lodLevel p < lodLevel q))
   \<and> (\<forall>q. Deref heap (eastPatch p) = Some q \<and> lodLevel p < lodLevel q
          \<and> lodLevel q < numLodLevels t \<longrightarrow>
        DrawRangeIndex t heap p AND STITCH_EAST \<noteq> 0)
   \<and> (unat (DrawRangeIndex t heap p) < length (drawRanges t) \<longrightarrow>
        geometryDrawRange (UpdatePatchLod t heap p) =
          drawRanges t ! unat (DrawRangeIndex t heap p))"
proof -
  have bits: "bit (DrawRangeIndex t heap p) n =
      ((n = 0 \<and> Coarser (Deref heap (northPatch p)) (lodLevel p))
     \<or> (n = 1 \<and> Coarser (Deref heap (southPatch p)) (lodLevel p))
     \<or> (n = 2 \<and> Coarser (Deref heap (westPatch p)) (lodLevel p))
     \<or> (n = 3 \<and> Coarser (Deref heap (eastPatch p)) (lodLevel p)))"
    if "lodLevel p < numLodLevels t - 1" "n < 4" for n
    using that by (rule DrawRangeIndex_bits)
  have east: "DrawRangeIndex t heap p AND STITCH_EAST \<noteq> 0"
    if q: "Deref heap (eastPatch p) = Some q" "lodLevel p < lodLevel q"
      "lodLevel q < numLodLevels t" for q
  proof -
    from q(2,3) have "lodLevel p < numLodLevels t - 1"
      by (rule below_coarsest)
    with q(1,2) show ?thesis
      by (simp add: and_STITCH_EAST bits Coarser_iff)
  qed
  show ?thesis
    using east
    by (simp add: and_STITCH_NORTH and_STITCH_SOUTH and_STITCH_WEST and_STITCH_EAST
        bits Coarser_iff UpdatePatchLod_def Let_def)
qed

theorem stitch_bits_follow_neighbours_witness:
  "DrawRangeIndex Built17 CoarseEastHeap FinePatch AND STITCH_EAST \<noteq> 0
   \<and> DrawRangeIndex Built17 CoarseEastHeap FinePatch AND STITCH_NORTH = 0"
proof -
  have l: "lodLevel FinePatch < numLodLevels Built17 - 1"
    by (simp add: FinePatch_def NewPatch_def Built17_def)
  have e: "\<exists>q. Deref CoarseEastHeap (eastPatch FinePatch) = Some q \<and> lodLevel FinePatch < lodLevel q"
    by (simp add: Deref_def CoarseEastHeap_def FinePatch_def NewPatch_def)
  have n: "\<not> (\<exists>q. Deref CoarseEastHeap (northPatch FinePatch) = Some q
      \<and> lodLevel FinePatch < lodLevel q)"
    by (simp add: Deref_def FinePatch_def NewPatch_def)
  from stitch_bits_follow_neighbours [of FinePatch Built17 CoarseEastHeap] l e n show ?thesis
    by blast
qed

subsection \<open>The LOD errors of a patch\<close>

lemma unat_Shl1: "i < 32 \<Longrightarrow> unat (Shl1 i) = 2 ^ i"
proof -
  assume a: "i < 32"
  have "(2::nat) ^ i < 2 ^ 32"
    using a by (intro power_strict_increasing) simp_all
  then have t: "take_bit 32 ((2::nat) ^ i) = 2 ^ i"
    by (intro take_bit_nat_eq_self) simp
  have "unat (Shl1 i) = take_bit LENGTH(32) (push_bit i (unat (1::32 word)))"
    unfolding Shl1_def by (rule unsigned_push_bit_eq)
  also have "\<dots> = take_bit 32 ((2::nat) ^ i)"
    by (simp add: push_bit_of_1)
  finally show ?thesis
    using t by simp
qed

lemma sint_Shl1: "i < 31 \<Longrightarrow> sint (Shl1 i) = 2 ^ i"
proof -
  assume a: "i < 31"
  have "(2::int) ^ i < 2 ^ 31"
    using a by (intro power_strict_increasing) simp_all
  moreover have "- ((2::int) ^ 31) \<le> 2 ^ i"
    by (rule order_trans [of _ 0]) simp_all
  ultimately have t: "signed_take_bit 31 ((2::int) ^ i) = 2 ^ i"
    by (intro signed_take_bit_int_eq_self)
  have "sint (Shl1 i) = signed_take_bit (LENGTH(32) - Suc 0) (push_bit i (sint (1::32 word)))"
    unfolding Shl1_def by (rule signed_push_bit_eq)
  also have "\<dots> = signed_take_bit 31 ((2::int) ^ i)"
    by (simp add: push_bit_of_1)
  finally show ?thesis
    using t by simp
qed

lemma smod_zero_iff: "(x smod d = 0) = (d dvd x)" for x d :: int
proof (cases "x = 0")
  case True
  then show ?thesis
    by (simp add: smod_int_alt_def)
next
  case False
  then have "(x smod d = 0) = (\<bar>x\<bar> mod \<bar>d\<bar> = 0)"
    by (simp add: smod_int_alt_def sgn_if)
  also have "\<dots> = (\<bar>d\<bar> dvd \<bar>x\<bar>)"
    by (simp add: mod_eq_0_iff_dvd)
  also have "\<dots> = (d dvd x)"
    by simp
  finally show ?thesis .
qed

text \<open>
  A loop that raises a running maximum by the values of the selected elements returns a
  bound of the start value and of those values, and returns one of them.
\<close>

lemma fold_max_props:
  fixes f :: "'a \<Rightarrow> 'b::linorder" and P :: "'a \<Rightarrow> bool"
  defines "g \<equiv> (\<lambda>x m. if P x then max (f x) m else m)"
  shows "m0 \<le> fold g xs m0
       \<and> (\<forall>x \<in> set xs. P x \<longrightarrow> f x \<le> fold g xs m0)
       \<and> (fold g xs m0 = m0 \<or> (\<exists>x \<in> set xs. P x \<and> fold g xs m0 = f x))"
proof (induction xs arbitrary: m0)
  case Nil
  then show ?case
    by simp
next
  case (Cons a xs)
  let ?m = "g a m0"
  have m: "m0 \<le> ?m" "P a \<longrightarrow> f a \<le> ?m" "?m = m0 \<or> (P a \<and> ?m = f a)"
    by (auto simp add: g_def max_def)
  from Cons.IH [of ?m] m show ?case
    by (auto intro: order_trans)
qed

lemma fold2_max_props:
  fixes f :: "'a \<Rightarrow> 'b \<Rightarrow> 'c::linorder" and P :: "'a \<Rightarrow> 'b \<Rightarrow> bool"
    and xs :: "'a list"
  defines "g \<equiv> (\<lambda>z. fold (\<lambda>x m. if P x z then max (f x z) m else m) xs)"
  shows "m0 \<le> fold g zs m0
       \<and> (\<forall>z \<in> set zs. \<forall>x \<in> set xs. P x z \<longrightarrow> f x z \<le> fold g zs m0)
       \<and> (fold g zs m0 = m0
           \<or> (\<exists>z \<in> set zs. \<exists>x \<in> set xs. P x z \<and> fold g zs m0 = f x z))"
proof (induction zs arbitrary: m0)
  case Nil
  then show ?case
    by simp
next
  case (Cons a zs)
  let ?m = "g a m0"
  have m: "m0 \<le> ?m" "\<forall>x \<in> set xs. P x a \<longrightarrow> f x a \<le> ?m"
    "?m = m0 \<or> (\<exists>x \<in> set xs. P x a \<and> ?m = f x a)"
    using fold_max_props [of m0 "\<lambda>x. P x a" "\<lambda>x. f x a" xs] by (simp_all add: g_def)
  from Cons.IH [of ?m] have
    ih1: "?m \<le> fold g zs ?m" and
    ih2: "\<forall>z \<in> set zs. \<forall>x \<in> set xs. P x z \<longrightarrow> f x z \<le> fold g zs ?m" and
    ih3: "fold g zs ?m = ?m
      \<or> (\<exists>z \<in> set zs. \<exists>x \<in> set xs. P x z \<and> fold g zs ?m = f x z)"
    by blast+
  have 1: "m0 \<le> fold g (a # zs) m0"
    using m(1) ih1 by simp
  have 2: "\<forall>z \<in> set (a # zs). \<forall>x \<in> set xs. P x z \<longrightarrow> f x z \<le> fold g (a # zs) m0"
    using m(2) ih1 ih2 by (auto intro: order_trans)
  have 3: "fold g (a # zs) m0 = m0
      \<or> (\<exists>z \<in> set (a # zs). \<exists>x \<in> set xs. P x z \<and> fold g (a # zs) m0 = f x z)"
    using m(3) ih3 by auto
  from 1 2 3 show ?case
    by blast
qed

lemma fold2_max_eq_Max:
  fixes f :: "'a \<Rightarrow> 'b \<Rightarrow> real"
  assumes nonneg: "\<And>x z. 0 \<le> f x z"
    and ex: "\<exists>z \<in> set zs. \<exists>x \<in> set xs. P x z"
  shows "fold (\<lambda>z. fold (\<lambda>x m. if P x z then max (f x z) m else m) xs) zs 0
      = Max {f x z | x z. x \<in> set xs \<and> z \<in> set zs \<and> P x z}"
proof -
  let ?r = "fold (\<lambda>z. fold (\<lambda>x m. if P x z then max (f x z) m else m) xs) zs 0"
  let ?S = "{f x z | x z. x \<in> set xs \<and> z \<in> set zs \<and> P x z}"
  have fin: "finite ?S"
  proof -
    have "?S \<subseteq> (\<lambda>(x, z). f x z) ` (set xs \<times> set zs)"
      by auto
    then show ?thesis
      by (rule finite_subset) simp
  qed
  from fold2_max_props [of 0 P f xs zs] have
    ub: "\<forall>z \<in> set zs. \<forall>x \<in> set xs. P x z \<longrightarrow> f x z \<le> ?r" and
    mem: "?r = 0 \<or> (\<exists>z \<in> set zs. \<exists>x \<in> set xs. P x z \<and> ?r = f x z)"
    by blast+
  have in_S: "?r \<in> ?S"
  proof (cases "\<exists>z \<in> set zs. \<exists>x \<in> set xs. P x z \<and> ?r = f x z")
    case True
    then show ?thesis
      by blast
  next
    case False
    with mem have r0: "?r = 0"
      by blast
    from ex obtain z x where zx: "z \<in> set zs" "x \<in> set xs" "P x z"
      by blast
    with ub r0 have "f x z \<le> 0"
      by auto
    with nonneg [of x z] have "f x z = 0"
      by simp
    with zx r0 show ?thesis
      by force
  qed
  have "\<And>y. y \<in> ?S \<Longrightarrow> y \<le> ?r"
    using ub by auto
  with fin in_S show ?thesis
    by (intro Max_eqI [symmetric]) auto
qed

lemma LodError_eq:
  assumes ps: "1 \<le> patchSize t" and i: "0 < i" "i < 31"
  shows "LodError t coords i =
     max (Max (ErrorSamples t coords i))
       ((1 / 4) * (vx (spacing t) + vz (spacing t)) * 2 ^ i)"
proof -
  let ?xs = "[ix coords * patchSize t..ix coords * patchSize t + patchSize t]"
  let ?zs = "[iy coords * patchSize t..iy coords * patchSize t + patchSize t]"
  let ?P = "\<lambda>x z :: int. x smod 2 ^ i \<noteq> 0 \<or> z smod 2 ^ i \<noteq> 0"
  let ?f = "\<lambda>x z. \<bar>GetLodHeight t x z i - GetRawHeight t x z\<bar>"
  have two: "(2::int) dvd 2 ^ i"
    using i(1) by (cases i) simp_all
  have unaligned: "\<not> 2 ^ i dvd x \<or> \<not> 2 ^ i dvd (x + 1)" for x :: int
  proof (rule ccontr)
    assume "\<not> ?thesis"
    then have "2 ^ i dvd x" "2 ^ i dvd (x + 1)"
      by simp_all
    with two have "2 dvd x" "2 dvd (x + 1)"
      by (blast intro: dvd_trans)+
    then show False
      by presburger
  qed
  have ex: "\<exists>z \<in> set ?zs. \<exists>x \<in> set ?xs. ?P x z"
  proof -
    let ?x0 = "ix coords * patchSize t"
    let ?z0 = "iy coords * patchSize t"
    from unaligned [of ?x0] have "?P ?x0 ?z0 \<or> ?P (?x0 + 1) ?z0"
      by (auto simp add: smod_zero_iff)
    moreover have "?x0 \<in> set ?xs" "?x0 + 1 \<in> set ?xs" "?z0 \<in> set ?zs"
      using ps by simp_all
    ultimately show ?thesis
      by blast
  qed
  have "fold (\<lambda>z. fold (\<lambda>x m. if ?P x z then max (?f x z) m else m) ?xs) ?zs 0
      = Max {?f x z | x z. x \<in> set ?xs \<and> z \<in> set ?zs \<and> ?P x z}"
    by (rule fold2_max_eq_Max [OF _ ex]) simp
  also have "{?f x z | x z. x \<in> set ?xs \<and> z \<in> set ?zs \<and> ?P x z} = ErrorSamples t coords i"
    by (auto simp add: ErrorSamples_def smod_zero_iff)
  finally show ?thesis
    using i by (simp add: LodError_def Let_def sint_Shl1 unat_Shl1)
qed

text \<open>
  C3. On a terrain with a patch size of at least 1 and at most 31 LOD levels (the
  configuration keeps the patch size in \<open>[4, 128]\<close> and the levels in \<open>[1, 4]\<close>),
  \<^verbatim>\<open>CalculateLodErrors\<close> gives every patch one error per LOD level; the error of level 0
  is 0; the error of a level \<open>i > 0\<close> is the greatest distance between the height
  interpolated on the grid of level \<open>i\<close> and the raw height over the samples of the patch
  extent off that grid, raised to at least \<open>0.25 * (spacing.x + spacing.z) * 2 ^ i\<close>.
\<close>

theorem lod_errors_per_level:
  assumes "1 \<le> patchSize t" and "unat (numLodLevels t) \<le> 31"
  shows "length (lodErrors (CalculateLodErrors t p)) = unat (numLodLevels t)
       \<and> (0 < unat (numLodLevels t) \<longrightarrow> lodErrors (CalculateLodErrors t p) ! 0 = 0)
       \<and> (\<forall>i. 0 < i \<and> i < unat (numLodLevels t) \<longrightarrow>
            lodErrors (CalculateLodErrors t p) ! i =
              max (Max (ErrorSamples t (coordinates p) i))
                ((1 / 4) * (vx (spacing t) + vz (spacing t)) * 2 ^ i)
            \<and> lodErrors (CalculateLodErrors t p) ! i
                \<ge> (1 / 4) * (vx (spacing t) + vz (spacing t)) * 2 ^ i)"
proof -
  have "lodErrors (CalculateLodErrors t p) ! i =
          max (Max (ErrorSamples t (coordinates p) i))
            ((1 / 4) * (vx (spacing t) + vz (spacing t)) * 2 ^ i)"
    if "0 < i" "i < unat (numLodLevels t)" for i
  proof -
    from that assms(2) have "i < 31"
      by simp
    with that assms(1) show ?thesis
      by (simp add: CalculateLodErrors_def LodError_eq)
  qed
  then show ?thesis
    by (simp add: CalculateLodErrors_def)
qed

theorem lod_errors_per_level_witness:
  "length (lodErrors (CalculateLodErrors Built17 FinePatch)) = 2
   \<and> lodErrors (CalculateLodErrors Built17 FinePatch) ! 0 = 0
   \<and> lodErrors (CalculateLodErrors Built17 FinePatch) ! 1 =
       max (Max (ErrorSamples Built17 (coordinates FinePatch) 1)) 1
   \<and> lodErrors (CalculateLodErrors Built17 FinePatch) ! 1 \<ge> 1"
proof -
  have p: "1 \<le> patchSize Built17"
    by (simp add: Built17_def)
  have n: "unat (numLodLevels Built17) = 2"
    by (simp add: Built17_def)
  have s: "vx (spacing Built17) = 1" "vz (spacing Built17) = 1"
    by (simp_all add: Built17_def Terrain_new_def DEFAULT_SPACING_def)
  from n have n31: "unat (numLodLevels Built17) \<le> 31"
    by simp
  from lod_errors_per_level [OF p n31, of FinePatch] show ?thesis
    unfolding n s by simp
qed

subsection \<open>The patch grid and the draw ranges of a full update\<close>

lemma length_rows:
  "length (concat (map (\<lambda>z. map (f z) xs) zs)) = length zs * length xs"
  by (induction zs) simp_all

lemma set_rows:
  "set (concat (map (\<lambda>z. map (\<lambda>x. (x, z)) xs) zs)) = set xs \<times> set zs"
  by (induction zs) auto

lemma distinct_rows:
  "distinct xs \<Longrightarrow> distinct zs \<Longrightarrow> distinct (concat (map (\<lambda>z. map (\<lambda>x. (x, z)) xs) zs))"
proof (induction zs)
  case Nil
  then show ?case by simp
next
  case (Cons z zs)
  have "distinct (map (\<lambda>x. (x, z)) xs)"
    using Cons.prems(1) by (simp add: distinct_map inj_on_def)
  moreover have "set (map (\<lambda>x. (x, z)) xs) \<inter> set (concat (map (\<lambda>z. map (\<lambda>x. (x, z)) xs) zs)) = {}"
    using Cons.prems(2) by (auto simp add: set_rows)
  ultimately show ?case
    using Cons by simp
qed

lemma distinct_PatchKeys: "distinct (PatchKeys np)"
  unfolding PatchKeys_def by (rule distinct_rows) simp_all


lemma length_PatchKeys:
  "0 \<le> ix np \<Longrightarrow> 0 \<le> iy np \<Longrightarrow> length (PatchKeys np) = nat (iy np) * nat (ix np)"
  unfolding PatchKeys_def length_rows by simp

lemma CreatePatches_apply:
  "CreatePatches keys ch k =
     (case ch k of Some p \<Rightarrow> Some p
      | None \<Rightarrow> if k \<in> set keys then Some (NewPatch k) else None)"
  unfolding CreatePatches_def
  by (induction keys arbitrary: ch) (auto split: option.splits)

lemma UpdateSmoothing_frame:
  "\<exists>h. UpdateSmoothing t dirty ch = t\<lparr>heightData := h\<rparr>"
  unfolding UpdateSmoothing_def
proof (rule fold_invariant [where Q = "\<lambda>_. True" and P = "\<lambda>s. \<exists>h. s = t\<lparr>heightData := h\<rparr>"])
  show "\<exists>h. t = t\<lparr>heightData := h\<rparr>"
    by (rule exI [of _ "heightData t"]) simp
next
  fix x s
  assume "\<exists>h. s = t\<lparr>heightData := h\<rparr>"
  then obtain h where s: "s = t\<lparr>heightData := h\<rparr>" by blast
  show "\<exists>h. (if dirty ! x
           then case ch (patches s ! x) of
                  None \<Rightarrow> s
                | Some patch \<Rightarrow> s\<lparr>heightData := map_option (SmoothPatch s (coordinates patch)) (heightData s)\<rparr>
           else s) = t\<lparr>heightData := h\<rparr>"
    unfolding s by (auto split: option.splits)
qed simp

lemma UpdateSmoothing_fields:
  "patches (UpdateSmoothing t dirty ch) = patches t"
  "patchSize (UpdateSmoothing t dirty ch) = patchSize t"
  "numLodLevels (UpdateSmoothing t dirty ch) = numLodLevels t"
  "numPatches (UpdateSmoothing t dirty ch) = numPatches t"
  "numVertices (UpdateSmoothing t dirty ch) = numVertices t"
  "drawRanges (UpdateSmoothing t dirty ch) = drawRanges t"
  "terrainCreatedEvents (UpdateSmoothing t dirty ch) = terrainCreatedEvents t"
  using UpdateSmoothing_frame [of t dirty ch] by auto

lemma BuildPatches_other:
  assumes "k \<notin> (\<lambda>i. keys ! i) ` set js"
  shows "fold (\<lambda>i c. case c (keys ! i) of
                   Some patch \<Rightarrow> c(keys ! i \<mapsto> F i patch)
                 | None \<Rightarrow> c) js ch k = ch k"
  using assms by (induction js arbitrary: ch) (auto split: option.splits)

lemma BuildPatches_at:
  assumes "distinct keys" "distinct js" "\<forall>j \<in> set js. j < length keys" "i \<in> set js"
  shows "fold (\<lambda>i c. case c (keys ! i) of
                   Some patch \<Rightarrow> c(keys ! i \<mapsto> F i patch)
                 | None \<Rightarrow> c) js ch (keys ! i) = map_option (F i) (ch (keys ! i))"
  using assms(2-4)
proof (induction js arbitrary: ch)
  case Nil
  then show ?case by simp
next
  case (Cons j js)
  let ?G = "(\<lambda>i c. case c (keys ! i) of Some patch \<Rightarrow> c(keys ! i \<mapsto> F i patch) | None \<Rightarrow> c)"
  show ?case
  proof (cases "i = j")
    case True
    have "keys ! i \<notin> (\<lambda>i. keys ! i) ` set js"
    proof
      assume "keys ! i \<in> (\<lambda>i. keys ! i) ` set js"
      then obtain j' where j': "j' \<in> set js" "keys ! j' = keys ! i" by auto
      with Cons.prems True have "j' \<noteq> i" "j' < length keys" "i < length keys" by auto
      with assms(1) j'(2) show False by (simp add: nth_eq_iff_index_eq)
    qed
    then have "fold ?G js (?G j ch) (keys ! i) = ?G j ch (keys ! i)"
      by (rule BuildPatches_other)
    with True show ?thesis by (auto split: option.splits)
  next
    case False
    with Cons.prems have i: "i \<in> set js" "i < length keys" "j < length keys" by auto
    with assms(1) False have ne: "keys ! i \<noteq> keys ! j" by (simp add: nth_eq_iff_index_eq)
    from Cons.prems i have "fold ?G js (?G j ch) (keys ! i) = map_option (F i) (?G j ch (keys ! i))"
      by (intro Cons.IH) auto
    with ne show ?thesis by (auto split: option.splits)
  qed
qed

lemma BuildPatches_nth:
  assumes "distinct (patches t)" "i < length (patches t)"
  shows "BuildPatches t dirty ch (patches t ! i)
      = map_option (BuildPatch t (dirty ! i)) (ch (patches t ! i))"
  unfolding BuildPatches_def
  using BuildPatches_at [of "patches t" "[0..<length (patches t)]" i "\<lambda>i. BuildPatch t (dirty ! i)" ch] assms
  by simp

lemma BuildPatches_outside:
  assumes "k \<notin> set (patches t)"
  shows "BuildPatches t dirty ch k = ch k"
  unfolding BuildPatches_def
  using assms by (intro BuildPatches_other) (auto simp add: set_conv_nth)

lemma NumLodLevelsLoop_32_2: "NumLodLevelsLoop 32 1 2 = 2"
  by (subst NumLodLevelsLoop.simps, subst NumLodLevelsLoop.simps)
     (simp add: MIN_PATCH_SIZE_def)

lemma fold_AddDrawRange_length:
  "length (snd (fold (AddDrawRange ps) xs acc)) = length (snd acc) + length xs"
  by (induction xs arbitrary: acc) (simp_all add: AddDrawRange_def Let_def)

lemma CreateIndexData_length:
  "length (drawRanges (CreateIndexData t)) = length (LodCombos (numLodLevels t))"
  by (simp add: CreateIndexData_def Let_def fold_AddDrawRange_length)

lemma Combinations_eq:
  assumes "i < unat n"
  shows "Combinations n i = (if i < unat n - 1 then 16 else 1)"
proof -
  have n: "unat n < 2 ^ 32"
    using unsigned_less [of n, where 'a = nat] by simp
  from assms have n0: "n \<noteq> 0"
    by auto
  then have "unat (n - 1) = unat n - 1"
    by (simp add: unat_minus_one)
  moreover have "unat (word_of_nat i :: 32 word) = i"
    using assms n by (simp add: unsigned_of_nat take_bit_nat_eq_self)
  ultimately show ?thesis
    by (simp add: Combinations_def word_less_nat_alt)
qed

lemma length_LodCombos:
  assumes "n \<noteq> 0"
  shows "length (LodCombos n) = 16 * (unat n - 1) + 1"
proof -
  from assms have pos: "0 < unat n"
    by (simp add: unat_gt_0)
  then obtain m where m: "unat n = Suc m"
    by (cases "unat n") simp_all
  have split: "[0..<unat n] = [0..<unat n - 1] @ [unat n - 1]"
    unfolding m by simp
  have a: "map (\<lambda>i. Combinations n i) [0..<unat n - 1] = map (\<lambda>i. 16) [0..<unat n - 1]"
    by (rule map_cong) (simp_all add: Combinations_eq)
  have b: "Combinations n (unat n - 1) = 1"
    using pos by (simp add: Combinations_eq)
  have "length (LodCombos n) = sum_list (map (Combinations n) [0..<unat n])"
    by (simp add: LodCombos_def length_concat comp_def)
  also have "\<dots> = sum_list (map (Combinations n) [0..<unat n - 1]) + Combinations n (unat n - 1)"
    by (subst split) simp
  also have "\<dots> = sum_list (map (\<lambda>i. 16) [0..<unat n - 1]) + 1"
    unfolding a b by simp
  also have "\<dots> = 16 * (unat n - 1) + 1"
    by (simp add: sum_list_triv)
  finally show ?thesis .
qed


lemma length_PatchGrid: "0 \<le> ps \<Longrightarrow> length (PatchGrid ps) = nat (ps + 1) * nat (ps + 1)"
  unfolding PatchGrid_def length_rows by simp

lemma vertexData_BuildPatch:
  "vertexData (BuildPatch t True p) =
     map (\<lambda>(x, z). PatchVertex t (coordinates p) x z) (PatchGrid (patchSize t))"
  by (simp add: BuildPatch_def SetPatchNeighbors_def CalculateLodErrors_def
      CreatePatchGeometry_def Let_def)

lemma BuildState_fields:
  "numPatches (BuildState t n img) = PatchCount t img"
  "numVertices (BuildState t n img) = VertexCount t img"
  "numLodLevels (BuildState t n img) = Levels t"
  "patches (BuildState t n img) = PatchKeys (PatchCount t img)"
  "patchSize (BuildState t n img) = patchSize t"
  by (simp_all add: BuildState_def HeightState_def Let_def UpdateSmoothing_fields
      CreateIndexData_def)

lemma BuildState_drawRanges:
  "drawRanges (BuildState t n img) =
     (if UpdateAll t (VertexCount t img)
      then snd (fold (AddDrawRange (patchSize t)) (LodCombos (Levels t)) ([], []))
      else drawRanges t)"
  by (simp add: BuildState_def HeightState_def Let_def UpdateSmoothing_fields
      CreateIndexData_def)

lemma CreateGeometryWith_fields:
  "numPatches (CreateGeometryWith t n img) = PatchCount t img"
  "numVertices (CreateGeometryWith t n img) = VertexCount t img"
  "numLodLevels (CreateGeometryWith t n img) = Levels t"
  "patches (CreateGeometryWith t n img) = PatchKeys (PatchCount t img)"
  "patchSize (CreateGeometryWith t n img) = patchSize t"
  "drawRanges (CreateGeometryWith t n img) = drawRanges (BuildState t n img)"
  "node (CreateGeometryWith t n img) =
     Some (n\<lparr>children :=
       BuildPatches (BuildState t n img) (DirtyPatches t img) (PatchNodes t n img)\<rparr>)"
  by (simp_all add: CreateGeometryWith_def Let_def SendTerrainCreated_def BuildState_fields)

lemma PatchNodes_key:
  assumes "k \<in> set (PatchKeys (PatchCount t img))"
  shows "\<exists>p. PatchNodes t n img k = Some p"
  using assms by (simp add: PatchNodes_def CreatePatches_apply split: option.splits)

text \<open>
  C1. A full update of a terrain on a node, with a height map of 65 by 65 pixels, patch
  size 32 and at most 2 LOD levels, gives a grid of 2 by 2 patches (4 patches) over 65 by
  65 vertices, 2 LOD levels and 17 draw ranges: 16 combinations of stitched edges for
  level 0 and 1 for level 1; every patch has \<open>33 * 33 = 1089\<close> vertices. In general the
  index data has 16 draw ranges for every level but the coarsest and 1 for the coarsest.
\<close>

theorem scenario_65:
  assumes "node t = Some n" and "heightMap t = Some img"
    and "img_width img = 65" and "img_height img = 65"
    and "patchSize t = 32" and "maxLodLevels t = 2"
    and "UpdateAll t (IntVector2 65 65)"
  shows "numPatches (CreateGeometry t) = IntVector2 2 2
       \<and> length (patches (CreateGeometry t)) = 4
       \<and> numVertices (CreateGeometry t) = IntVector2 65 65
       \<and> numLodLevels (CreateGeometry t) = 2
       \<and> length (drawRanges (CreateGeometry t)) = 17
       \<and> Combinations (numLodLevels (CreateGeometry t)) 0 = 16
       \<and> Combinations (numLodLevels (CreateGeometry t)) 1 = 1
       \<and> (\<exists>n'. node (CreateGeometry t) = Some n'
            \<and> (\<forall>k \<in> set (patches (CreateGeometry t)).
                  \<exists>p. children n' k = Some p \<and> length (vertexData p) = 1089))
       \<and> (numLodLevels u \<noteq> 0 \<longrightarrow>
            length (drawRanges (CreateIndexData u)) = 16 * (unat (numLodLevels u) - 1) + 1
            \<and> (\<forall>i < unat (numLodLevels u).
                  Combinations (numLodLevels u) i
                    = (if i < unat (numLodLevels u) - 1 then 16 else 1)))"
proof -
  have cg: "CreateGeometry t = CreateGeometryWith t n img"
    using assms(1,2) by (simp add: CreateGeometry_def)
  have lv: "Levels t = 2"
    using assms(5,6) by (simp add: Levels_def NumLodLevelsLoop_32_2)
  have np: "PatchCount t img = IntVector2 2 2"
    using assms(3,4,5) by (simp add: PatchCount_def signed_divide_int_def)
  have nv: "VertexCount t img = IntVector2 65 65"
    using assms(5) by (simp add: VertexCount_def np)
  have ua: "UpdateAll t (VertexCount t img)"
    using assms(7) by (simp add: nv)
  have keys: "length (PatchKeys (IntVector2 2 2)) = 4"
    by (simp add: length_PatchKeys)
  have dr: "length (drawRanges (CreateGeometryWith t n img)) = 17"
    using ua by (simp add: CreateGeometryWith_fields BuildState_drawRanges lv
        fold_AddDrawRange_length length_LodCombos)
  have dirty: "DirtyPatches t img = replicate 4 True"
    using ua by (simp add: DirtyPatches_def Let_def np)
  let ?b = "BuildState t n img"
  let ?ch = "BuildPatches ?b (DirtyPatches t img) (PatchNodes t n img)"
  have verts: "\<exists>p. ?ch k = Some p \<and> length (vertexData p) = 1089"
    if k: "k \<in> set (PatchKeys (IntVector2 2 2))" for k
  proof -
    from k obtain i where i: "i < 4" "PatchKeys (IntVector2 2 2) ! i = k"
      using keys by (auto simp add: in_set_conv_nth)
    from k obtain p where p: "PatchNodes t n img k = Some p"
      using PatchNodes_key [of k t img n] by (auto simp add: np)
    have "?ch (patches ?b ! i)
        = map_option (BuildPatch ?b (DirtyPatches t img ! i)) (PatchNodes t n img (patches ?b ! i))"
      using i keys by (intro BuildPatches_nth) (simp_all add: BuildState_fields np distinct_PatchKeys)
    then have "?ch k = Some (BuildPatch ?b True p)"
      using i p by (simp add: BuildState_fields np dirty)
    moreover have "length (vertexData (BuildPatch ?b True p)) = 1089"
      using assms(5) by (simp add: vertexData_BuildPatch BuildState_fields length_PatchGrid)
    ultimately show ?thesis
      by simp
  qed
  have gen: "length (drawRanges (CreateIndexData u)) = 16 * (unat (numLodLevels u) - 1) + 1
            \<and> (\<forall>i < unat (numLodLevels u).
                  Combinations (numLodLevels u) i
                    = (if i < unat (numLodLevels u) - 1 then 16 else 1))"
    if "numLodLevels u \<noteq> 0"
    using that by (simp add: CreateIndexData_length length_LodCombos Combinations_eq)
  have ex: "\<exists>n'. node (CreateGeometryWith t n img) = Some n'
            \<and> (\<forall>k \<in> set (patches (CreateGeometryWith t n img)).
                  \<exists>p. children n' k = Some p \<and> length (vertexData p) = 1089)"
    using verts by (simp add: CreateGeometryWith_fields np)
  show ?thesis
    unfolding cg
    using dr ex gen
    by (simp add: CreateGeometryWith_fields lv np nv keys Combinations_def)
qed

lemma Configured65_fields:
  "node Configured65 = Some IdentityNode"
  "heightMap Configured65 = Some Image65"
  "patchSize Configured65 = 32"
  "maxLodLevels Configured65 = 2"
  "lastNumVertices Configured65 = IntVector2 0 0"
  by (simp_all add: Configured65_def SetMaxLodLevels_def Let_def Clamp_def MIN_LOD_LEVELS_def
      MAX_LOD_LEVELS_def Terrain_new_def CreateGeometry_def SendTerrainCreated_def
      DEFAULT_PATCH_SIZE_def IntVector2_ZERO_def)

theorem scenario_65_witness:
  "fst (SetHeightMap (SetMaxLodLevels (Terrain_new\<lparr>node := Some IdentityNode\<rparr>) 2) (Some Image65))
     = CreateGeometry Configured65
   \<and> numPatches (CreateGeometry Configured65) = IntVector2 2 2
   \<and> length (patches (CreateGeometry Configured65)) = 4
   \<and> numLodLevels (CreateGeometry Configured65) = 2
   \<and> length (drawRanges (CreateGeometry Configured65)) = 17"
proof -
  have ua: "UpdateAll Configured65 (IntVector2 65 65)"
    by (simp add: UpdateAll_def UpdateAll0_def Configured65_fields)
  have a: "fst (SetHeightMap (SetMaxLodLevels (Terrain_new\<lparr>node := Some IdentityNode\<rparr>) 2) (Some Image65))
     = CreateGeometry Configured65"
    by (simp add: SetHeightMap_def SetHeightMapInternal_def Image65_def Configured65_def)
  from scenario_65 [OF Configured65_fields(1,2) _ _ Configured65_fields(3,4) ua, of Terrain_new] a
  show ?thesis
    by (simp add: Image65_def)
qed

subsection \<open>Partial regeneration\<close>









































subsection \<open>Regeneration keeps the shape of the height data\<close>

text \<open>
  The terrain starts without height data, and every regeneration of a terrain with a
  positive patch size from an image that is not empty leaves height data of
  \<open>width * height\<close> samples on a grid of at least one vertex each way: the hypotheses
  of the clamped reads above hold after \<^verbatim>\<open>CreateGeometry\<close>.
\<close>

lemma length_CopyHeightData:
  "length (fst (CopyHeightData ua nh nv dest)) = length dest"
  unfolding CopyHeightData_def
  by (rule fold_invariant [where Q = "\<lambda>_. True" and P = "\<lambda>acc. length (fst acc) = length dest"])
     (simp_all add: CopySample_def Let_def)

lemma length_SmoothPatch: "length (SmoothPatch t c d) = length d"
proof -
  have inner: "length (fold (\<lambda>x d'. d'[g x := f x]) xs d) = length d" for g :: "int \<Rightarrow> nat" and f :: "int \<Rightarrow> real" and xs d
    by (induction xs arbitrary: d) simp_all
  have outer: "length (fold (\<lambda>z. fold (\<lambda>x d'. d'[g z x := f z x]) xs) zs d) = length d"
    for g :: "int \<Rightarrow> int \<Rightarrow> nat" and f :: "int \<Rightarrow> int \<Rightarrow> real" and xs zs d
    by (induction zs arbitrary: d) (simp_all add: inner)
  show ?thesis
    unfolding SmoothPatch_def Let_def by (rule outer)
qed

lemma UpdateSmoothing_heightData_length:
  assumes "heightData t = Some d"
  shows "\<exists>d'. heightData (UpdateSmoothing t dirty ch) = Some d' \<and> length d' = length d"
  unfolding UpdateSmoothing_def
  by (rule fold_invariant [where Q = "\<lambda>_. True"
        and P = "\<lambda>s. \<exists>d'. heightData s = Some d' \<and> length d' = length d"])
     (auto simp add: assms length_SmoothPatch split: option.splits)

lemma VertexCount_pos:
  assumes "0 < patchSize t" "1 \<le> img_width img" "1 \<le> img_height img"
  shows "1 \<le> ix (VertexCount t img) \<and> 1 \<le> iy (VertexCount t img)"
proof -
  have "0 \<le> (img_width img - 1) sdiv patchSize t" "0 \<le> (img_height img - 1) sdiv patchSize t"
    using assms by (simp_all add: signed_divide_int_def sgn_if pos_imp_zdiv_nonneg_iff)
  then have "0 \<le> (img_width img - 1) sdiv patchSize t * patchSize t"
    "0 \<le> (img_height img - 1) sdiv patchSize t * patchSize t"
    using assms(1) by simp_all
  then show ?thesis
    by (simp add: VertexCount_def PatchCount_def)
qed

lemma NewHeightData_length:
  assumes "HeightDataShape t"
  shows "\<exists>d. NewHeightData t img = Some d
     \<and> length d = nat (ix (VertexCount t img) * iy (VertexCount t img))"
  using assms
  by (auto simp add: NewHeightData_def HeightDataShape_def UpdateAll0_def split: option.splits)

lemma UpdateSmoothing_lastNumVertices:
  "lastNumVertices (UpdateSmoothing t dirty ch) = lastNumVertices t"
  using UpdateSmoothing_frame [of t dirty ch] by auto

lemma HeightDataShape_new: "HeightDataShape Terrain_new"
  by (simp add: HeightDataShape_def Terrain_new_def)

lemma HeightDataShape_CreateGeometry:
  assumes shape: "HeightDataShape t" and ps: "0 < patchSize t"
    and img: "\<forall>img. heightMap t = Some img \<longrightarrow> 1 \<le> img_width img \<and> 1 \<le> img_height img"
  shows "HeightDataShape (CreateGeometry t)"
proof (cases "node t")
  case None
  with shape show ?thesis
    by (simp add: CreateGeometry_def HeightDataShape_def split: option.splits)
next
  case (Some n)
  show ?thesis
  proof (cases "heightMap t")
    case None
    with Some show ?thesis
      by (simp add: CreateGeometry_def HeightDataShape_def SendTerrainCreated_def)
  next
    case (Some img')
    let ?nv = "VertexCount t img'"
    let ?L = "nat (ix ?nv * iy ?nv)"
    from NewHeightData_length [OF shape, of img'] obtain d0 where
      d0: "NewHeightData t img' = Some d0" "length d0 = ?L"
      by blast
    have hs: "\<exists>d. heightData (HeightState t img') = Some d \<and> length d = ?L"
    proof (cases "smoothing t")
      case True
      with d0 show ?thesis
        by (simp add: HeightState_def Let_def)
    next
      case False
      then show ?thesis
        using d0 by (simp add: HeightState_def Let_def CopiedHeights_def CopyDestination_def
            length_CopyHeightData)
    qed
    have bs: "\<exists>d. heightData (BuildState t n img') = Some d \<and> length d = ?L"
    proof -
      let ?t2 = "if UpdateAll t ?nv then CreateIndexData (HeightState t img') else HeightState t img'"
      from hs obtain d where d: "heightData ?t2 = Some d" "length d = ?L"
        by (auto simp add: CreateIndexData_def Let_def)
      show ?thesis
      proof (cases "smoothing t")
        case True
        from UpdateSmoothing_heightData_length [OF d(1)] d(2) True show ?thesis
          by (simp add: BuildState_def Let_def)
      next
        case False
        with d show ?thesis
          by (simp add: BuildState_def Let_def)
      qed
    qed
    have nv: "numVertices (BuildState t n img') = ?nv" "lastNumVertices (BuildState t n img') = ?nv"
      by (simp_all add: BuildState_def HeightState_def Let_def UpdateSmoothing_fields
          CreateIndexData_def UpdateSmoothing_lastNumVertices)
    from img Some have "1 \<le> img_width img'" "1 \<le> img_height img'"
      by simp_all
    from VertexCount_pos [OF ps this] bs nv \<open>node t = Some n\<close> Some show ?thesis
      by (auto simp add: CreateGeometry_def CreateGeometryWith_def Let_def
          SendTerrainCreated_def HeightDataShape_def split: option.splits)
  qed
qed

end
